theory Spec2Isabelle
  imports Complex_Main "HOL-Library.Sublist"
begin

section \<open>Strings and exceptions\<close>

text \<open>
  Python strings are modelled as \<^typ>\<open>string\<close>. An exception is a value carrying the
  class that the \<^verbatim>\<open>except\<close> clauses of the source distinguish and the text
  that \<^verbatim>\<open>str(e)\<close> yields. A function that may raise returns \<open>exn + 'a\<close>,
  with \<open>Inl\<close> for the raised exception.
\<close>

datatype exn_class = ExceptionC | ValueErrorC | FileNotFoundErrorC | SubprocessErrorC

datatype exn = Exn (exn_cls: exn_class) (exn_str: string)

abbreviation NL :: char where
  "NL \<equiv> CHR 0x0A"

definition digit_char :: "nat \<Rightarrow> char" where
  "digit_char d = ''0123456789'' ! d"

text \<open>\<^verbatim>\<open>str(n)\<close> for a non-negative integer: its decimal digits.\<close>

function str_nat :: "nat \<Rightarrow> string" where
  "str_nat n = (if n < 10 then [digit_char n] else str_nat (n div 10) @ [digit_char (n mod 10)])"
  by pat_completeness auto
termination
  by (relation "measure (\<lambda>n. n)") auto

declare str_nat.simps [simp del]

text \<open>
  \<^verbatim>\<open>str.lower()\<close> on the code points below 256: the ASCII capitals by table, the
  Latin-1 capitals (all of 192 to 222 but the multiplication sign) by their offset.
\<close>

definition lower_char :: "char \<Rightarrow> char" where
  "lower_char c =
     (case map_of (zip ''ABCDEFGHIJKLMNOPQRSTUVWXYZ'' ''abcdefghijklmnopqrstuvwxyz'') c of
        Some l \<Rightarrow> l
      | None \<Rightarrow>
          (let n = (of_char c :: nat)
           in if 192 \<le> n \<and> n \<le> 222 \<and> n \<noteq> 215 then char_of (n + 32) else c))"

definition lower :: "string \<Rightarrow> string" where
  "lower s = map lower_char s"

text \<open>
  Splitting at every character that satisfies a predicate, empty pieces kept: never the
  empty list. \<^verbatim>\<open>s.split(sep)\<close> with a one-character separator is the instance
  \<open>split_on\<close>; \<^verbatim>\<open>s.split()\<close> splits at whitespace and drops the empty pieces.
\<close>

fun split_where :: "(char \<Rightarrow> bool) \<Rightarrow> string \<Rightarrow> string list" where
  "split_where P [] = [[]]"
| "split_where P (c # cs) =
     (if P c then [] # split_where P cs
      else (case split_where P cs of
              [] \<Rightarrow> [[c]]
            | w # ws \<Rightarrow> (c # w) # ws))"

definition split_on :: "char \<Rightarrow> string \<Rightarrow> string list" where
  "split_on sep s = split_where (\<lambda>c. c = sep) s"

text \<open>\<^verbatim>\<open>str.isspace()\<close> of one character, on the code points below 256.\<close>

definition py_isspace :: "char \<Rightarrow> bool" where
  "py_isspace c = ((of_char c :: nat) \<in> set [9, 10, 11, 12, 13, 28, 29, 30, 31, 32, 133, 160])"

definition split_ws :: "string \<Rightarrow> string list" where
  "split_ws s = filter (\<lambda>w. w \<noteq> []) (split_where py_isspace s)"

text \<open>
  \<^verbatim>\<open>s.replace(old, new)\<close>: every non-overlapping occurrence of \<open>old\<close>, scanning from
  the left. With an empty \<open>old\<close>, Python puts \<open>new\<close> before every character and at
  the end.
\<close>

function replace_str :: "string \<Rightarrow> string \<Rightarrow> string \<Rightarrow> string" where
  "replace_str old new [] = (if old = [] then new else [])"
| "replace_str old new (c # cs) =
     (if old = [] then new @ c # replace_str old new cs
      else if prefix old (c # cs) then new @ replace_str old new (drop (length old) (c # cs))
      else c # replace_str old new cs)"
  by pat_completeness auto
termination
  by (relation "measure (\<lambda>(old, new, s). length s)") auto

text \<open>
  \<^verbatim>\<open>s.split(sep)\<close> for a separator of any length (the pieces between the
  non-overlapping occurrences, scanning from the left), \<^verbatim>\<open>s.split(sep, 1)\<close>, which
  splits at the first occurrence only, and \<^verbatim>\<open>s.strip()\<close>. The separators of the
  source are not empty.
\<close>

function split_str :: "string \<Rightarrow> string \<Rightarrow> string list" where
  "split_str sep [] = [[]]"
| "split_str sep (c # cs) =
     (if sep \<noteq> [] \<and> prefix sep (c # cs) then [] # split_str sep (drop (length sep) (c # cs))
      else (case split_str sep cs of
              [] \<Rightarrow> [[c]]
            | w # ws \<Rightarrow> (c # w) # ws))"
  by pat_completeness auto
termination
  by (relation "measure (\<lambda>(sep, s). length s)") auto

fun split_once :: "string \<Rightarrow> string \<Rightarrow> string list" where
  "split_once sep [] = [[]]"
| "split_once sep (c # cs) =
     (if prefix sep (c # cs) then [[], drop (length sep) (c # cs)]
      else (case split_once sep cs of
              [] \<Rightarrow> [[c]]
            | w # ws \<Rightarrow> (c # w) # ws))"

definition strip :: "string \<Rightarrow> string" where
  "strip s = rev (dropWhile py_isspace (rev (dropWhile py_isspace s)))"

text \<open>
  \<^verbatim>\<open>os.path.join(a, b)\<close> with the separator \<open>/\<close>: an absolute \<open>b\<close> replaces \<open>a\<close>.
\<close>

definition path_join :: "string \<Rightarrow> string \<Rightarrow> string" where
  "path_join a b =
     (if b \<noteq> [] \<and> hd b = CHR ''/'' then b
      else if a = [] \<or> last a = CHR ''/'' then a @ b
      else a @ ''/'' @ b)"

text \<open>
  \<^verbatim>\<open>os.path.splitext(p)[1]\<close>: the part of the last path component from its last dot
  on, empty when that component has no dot or only leading dots before it.
\<close>

definition splitext_ext :: "string \<Rightarrow> string" where
  "splitext_ext p =
     (let b = rev (takeWhile (\<lambda>c. c \<noteq> CHR ''/'') (rev p));
          e = rev (takeWhile (\<lambda>c. c \<noteq> CHR ''.'') (rev b));
          stem = take (length b - length e - 1) b
      in if CHR ''.'' \<notin> set b then []
         else if list_all (\<lambda>c. c = CHR ''.'') stem then []
         else CHR ''.'' # e)"

section \<open>OCR adapter (utils.py)\<close>

text \<open>
  The OCR engine, the image decoder and the PDF rasterizer are external collaborators.
  They enter as the fields of an environment; each may raise.
\<close>

type_synonym image = nat

record ocr_env =
  image_open :: "string \<Rightarrow> exn + image"
  image_to_string :: "image \<Rightarrow> string \<Rightarrow> exn + string"
  convert_from_path :: "string \<Rightarrow> exn + image list"

definition ocr_image :: "ocr_env \<Rightarrow> string \<Rightarrow> string \<Rightarrow> exn + string" where
  "ocr_image env image_path language =
     (case image_open env image_path of
        Inl e \<Rightarrow> Inl (Exn ExceptionC (''Error performing OCR on image: '' @ exn_str e))
      | Inr img \<Rightarrow>
          (case image_to_string env img language of
             Inl e \<Rightarrow> Inl (Exn ExceptionC (''Error performing OCR on image: '' @ exn_str e))
           | Inr text \<Rightarrow> Inr text))"

text \<open>
  The loop of \<^verbatim>\<open>ocr_pdf\<close> over \<^verbatim>\<open>enumerate(images)\<close>: \<open>i\<close> is the index of
  the next page, \<open>text\<close> the accumulator.
\<close>

fun ocr_pdf_loop :: "ocr_env \<Rightarrow> string \<Rightarrow> nat \<Rightarrow> image list \<Rightarrow> string \<Rightarrow> exn + string" where
  "ocr_pdf_loop env language i [] text = Inr text"
| "ocr_pdf_loop env language i (img # imgs) text =
     (case image_to_string env img language of
        Inl e \<Rightarrow> Inl e
      | Inr page_text \<Rightarrow>
          ocr_pdf_loop env language (i + 1) imgs
            (text @ [NL, NL] @ ''--- Page '' @ str_nat (i + 1) @ '' ---'' @ [NL, NL] @ page_text))"

definition ocr_pdf :: "ocr_env \<Rightarrow> string \<Rightarrow> string \<Rightarrow> exn + string" where
  "ocr_pdf env pdf_path language =
     (case convert_from_path env pdf_path of
        Inl e \<Rightarrow> Inl (Exn ExceptionC (''Error performing OCR on PDF: '' @ exn_str e))
      | Inr images \<Rightarrow>
          (case ocr_pdf_loop env language 0 images [] of
             Inl e \<Rightarrow> Inl (Exn ExceptionC (''Error performing OCR on PDF: '' @ exn_str e))
           | Inr text \<Rightarrow> Inr text))"

definition perform_ocr :: "ocr_env \<Rightarrow> string \<Rightarrow> string \<Rightarrow> exn + string" where
  "perform_ocr env file_path language =
     (let file_ext = lower (splitext_ext file_path)
      in if file_ext = ''.pdf'' then ocr_pdf env file_path language
         else if file_ext \<in> set [''.png'', ''.jpg'', ''.jpeg'', ''.tiff'', ''.bmp'', ''.gif'']
         then ocr_image env file_path language
         else Inl (Exn ValueErrorC (''Unsupported file format: '' @ file_ext)))"

text \<open>
  The delimiter as the specification words it: two newlines, the marker with the
  1-indexed page number, two newlines.
\<close>

definition page_delimiter :: "nat \<Rightarrow> string" where
  "page_delimiter k = [NL, NL] @ ''--- Page '' @ str_nat k @ '' ---'' @ [NL, NL]"

definition three_page_env :: ocr_env where
  "three_page_env =
     \<lparr>image_open = (\<lambda>p. Inr 0),
      image_to_string =
        (\<lambda>img lang. Inr (if img = 1 then ''one'' else if img = 2 then ''two'' else ''three'')),
      convert_from_path = (\<lambda>p. Inr [1, 2, 3])\<rparr>"

section \<open>File system\<close>

text \<open>
  The stored files are a map from paths to contents, together with the history of the
  writes made so far (path and content written, oldest first). A rendered document is
  the sequence of the calls that the renderer made to lay it out (a Word document also
  records whether the font was customised, a PDF from the conversion tool the text of
  the page it was made from); an image is its format and the text drawn on its canvas,
  each piece with its position. Fonts are not part of the content.
\<close>

type_synonym canvas = "((nat \<times> nat) \<times> string) list"

datatype docx_element = Paragraph string | PageBreak

datatype fpdf_op = AddPage | Ln nat | MultiCell string

datatype reportlab_op = ShowPage | DrawString int int string

datatype file_content =
    UploadedFile string
  | TextFile string
  | HtmlFile string
  | DocxFile bool "docx_element list"
  | FpdfFile "fpdf_op list"
  | ReportlabFile "reportlab_op list"
  | WkhtmltopdfFile string
  | ImageFile string canvas

record fsys =
  files :: "string \<rightharpoonup> file_content"
  writes :: "(string \<times> file_content) list"

definition write_file :: "string \<Rightarrow> file_content \<Rightarrow> fsys \<Rightarrow> fsys" where
  "write_file path content fs =
     fs\<lparr>files := (files fs)(path \<mapsto> content), writes := writes fs @ [(path, content)]\<rparr>"

definition remove_file :: "string \<Rightarrow> fsys \<Rightarrow> fsys" where
  "remove_file path fs = fs\<lparr>files := (files fs)(path := None)\<rparr>"

definition isfile :: "fsys \<Rightarrow> string \<Rightarrow> bool" where
  "isfile fs path = (files fs path \<noteq> None)"

section \<open>Output renderer (utils.py)\<close>

text \<open>
  The rendering libraries, the font files, the temporary-file facility and the external
  conversion tool are outside the repository. Their outcomes are the fields of an
  environment: \<open>None\<close> where a step succeeds, the exception where it raises.
  \<open>write_error\<close> is the failure, if any, of creating a file at a path;
  \<open>getlength\<close> is the pixel width of a string in the font that the font search selects;
  measuring and drawing are taken not to raise. A library tier that raises is taken to
  leave the stored files as they were. The conversion tool is given the output path as
  its target: when it runs and fails (a \<^verbatim>\<open>SubprocessError\<close>) it may have left a file
  there, \<open>wkhtmltopdf_leftover\<close>; when it cannot be started
  (\<^verbatim>\<open>FileNotFoundError\<close>) it has written nothing.
\<close>

record render_env =
  write_error :: "string \<Rightarrow> exn option"
  docx_styled_error :: "exn option"
  docx_plain_error :: "exn option"
  fpdf_error :: "exn option"
  reportlab_error :: "exn option"
  temp_txt_path :: string
  temp_txt_error :: "exn option"
  temp_html_path :: string
  temp_html_error :: "exn option"
  wkhtmltopdf_error :: "exn option"
  wkhtmltopdf_leftover :: "file_content option"
  unlink_error :: "string \<Rightarrow> exn option"
  getlength :: "string \<Rightarrow> real"

text \<open>
  A renderer returns the path of the file it made, or the exception it raised, and in
  both cases the file system as it left it.
\<close>

type_synonym render_result = "(exn + string) \<times> fsys"

definition create_text_file :: "render_env \<Rightarrow> string \<Rightarrow> string \<Rightarrow> fsys \<Rightarrow> render_result" where
  "create_text_file env text output_path fs =
     (case write_error env output_path of
        Some e \<Rightarrow> (Inl (Exn ExceptionC (''Error creating text file: '' @ exn_str e)), fs)
      | None \<Rightarrow> (Inr output_path, write_file output_path (TextFile text) fs))"

text \<open>
  The text of a page as the renderers extract it from a piece of
  \<^verbatim>\<open>text.split("--- Page")\<close>: what follows the first \<^verbatim>\<open>---\<close>, stripped, or the
  whole piece, stripped, when it holds none.
\<close>

definition page_content :: "string \<Rightarrow> string" where
  "page_content page =
     (let parts = split_once ''---'' page
      in if length parts > 1 then strip (parts ! 1) else strip (parts ! 0))"

text \<open>
  The body of a Word document, the same in both tiers: the stripped first piece as a
  paragraph when it is not empty, then a page break and a paragraph for every later
  piece.
\<close>

definition docx_body :: "string \<Rightarrow> docx_element list" where
  "docx_body text =
     (let pages = split_str ''--- Page'' text
      in (if strip (hd pages) \<noteq> [] then [Paragraph (strip (hd pages))] else []) @
         concat (map (\<lambda>page. [PageBreak, Paragraph (page_content page)]) (tl pages)))"

definition create_docx_file :: "render_env \<Rightarrow> string \<Rightarrow> string \<Rightarrow> fsys \<Rightarrow> render_result" where
  "create_docx_file env text output_path fs =
     (case docx_styled_error env of
        None \<Rightarrow> (Inr output_path, write_file output_path (DocxFile True (docx_body text)) fs)
      | Some e \<Rightarrow>
          (case docx_plain_error env of
             None \<Rightarrow>
               (Inr output_path, write_file output_path (DocxFile False (docx_body text)) fs)
           | Some nested_e \<Rightarrow>
               (Inl (Exn ExceptionC
                  (''Error creating Word document: '' @ exn_str e @ '' -> '' @ exn_str nested_e)),
                fs)))"

text \<open>
  The first tier of \<^verbatim>\<open>create_pdf_file\<close>: one page to begin with and a new page
  before every later piece; on a page, an empty line is a line break of 5 and any other
  line a cell followed by a line break of 2.
\<close>

definition fpdf_lines :: "string \<Rightarrow> fpdf_op list" where
  "fpdf_lines content =
     concat (map (\<lambda>line. if strip line = [] then [Ln 5] else [MultiCell line, Ln 2])
               (split_on NL content))"

definition fpdf_body :: "string \<Rightarrow> fpdf_op list" where
  "fpdf_body text =
     (let pages = split_str ''--- Page'' text
      in AddPage # fpdf_lines (strip (hd pages)) @
         concat (map (\<lambda>page. AddPage # fpdf_lines (page_content page)) (tl pages)))"

text \<open>
  The second tier: a vertical cursor that starts 40 below the top of a letter page (792
  high), goes down by 14 with each line and starts a new page when it has passed the
  bottom margin of 40.
\<close>

fun reportlab_lines :: "int \<Rightarrow> string list \<Rightarrow> reportlab_op list" where
  "reportlab_lines y [] = []"
| "reportlab_lines y (line # lines) =
     (if y < 40 then ShowPage # DrawString 40 (792 - 40) line # reportlab_lines (792 - 40 - 14) lines
      else DrawString 40 y line # reportlab_lines (y - 14) lines)"

definition reportlab_body :: "string \<Rightarrow> reportlab_op list" where
  "reportlab_body text =
     (let pages = split_str ''--- Page'' text
      in reportlab_lines (792 - 40) (split_on NL (strip (hd pages))) @
         concat (map (\<lambda>page. ShowPage #
                   reportlab_lines (792 - 40) (split_on NL (page_content page))) (tl pages)))"

text \<open>
  The third tier of \<^verbatim>\<open>create_pdf_file\<close>. \<open>pdf_final_error\<close> is the exception of the
  outermost handler; \<open>pdf_degrade\<close> is the handler for
  \<^verbatim>\<open>(subprocess.SubprocessError, FileNotFoundError)\<close>, which copies the temporary text
  file to the output path with \<^verbatim>\<open>.pdf\<close> replaced by \<^verbatim>\<open>.txt\<close>;
  \<open>pdf_inner_handler\<close> dispatches an exception raised inside the inner
  \<^verbatim>\<open>try\<close> to one or the other.
\<close>

definition pdf_final_error :: "exn \<Rightarrow> exn \<Rightarrow> exn \<Rightarrow> exn" where
  "pdf_final_error e nested_e final_e =
     Exn ExceptionC (''Error creating PDF file: '' @ exn_str e @ '' -> '' @ exn_str nested_e
       @ '' -> '' @ exn_str final_e)"

definition pdf_degrade :: "render_env \<Rightarrow> exn \<Rightarrow> exn \<Rightarrow> string \<Rightarrow> fsys \<Rightarrow> render_result" where
  "pdf_degrade env e nested_e output_path fs =
     (let dst = replace_str ''.pdf'' ''.txt'' output_path
      in case files fs (temp_txt_path env) of
           None \<Rightarrow>
             (Inl (pdf_final_error e nested_e (Exn FileNotFoundErrorC (temp_txt_path env))), fs)
         | Some content \<Rightarrow>
             (case write_error env dst of
                Some final_e \<Rightarrow> (Inl (pdf_final_error e nested_e final_e), fs)
              | None \<Rightarrow>
                  (let fs1 = write_file dst content fs
                   in case unlink_error env (temp_txt_path env) of
                        Some final_e \<Rightarrow> (Inl (pdf_final_error e nested_e final_e), fs1)
                      | None \<Rightarrow> (Inr dst, remove_file (temp_txt_path env) fs1))))"

definition pdf_inner_handler ::
  "render_env \<Rightarrow> exn \<Rightarrow> exn \<Rightarrow> exn \<Rightarrow> string \<Rightarrow> fsys \<Rightarrow> render_result" where
  "pdf_inner_handler env e nested_e raised output_path fs =
     (if exn_cls raised = SubprocessErrorC \<or> exn_cls raised = FileNotFoundErrorC
      then pdf_degrade env e nested_e output_path fs
      else (Inl (pdf_final_error e nested_e raised), fs))"

definition pdf_tier3 ::
  "render_env \<Rightarrow> exn \<Rightarrow> exn \<Rightarrow> string \<Rightarrow> string \<Rightarrow> fsys \<Rightarrow> render_result" where
  "pdf_tier3 env e nested_e text output_path fs =
     (case temp_txt_error env of
        Some final_e \<Rightarrow> (Inl (pdf_final_error e nested_e final_e), fs)
      | None \<Rightarrow>
          (let fs1 = write_file (temp_txt_path env) (TextFile text) fs
           in case temp_html_error env of
                Some raised \<Rightarrow> pdf_inner_handler env e nested_e raised output_path fs1
              | None \<Rightarrow>
                  (let fs2 = write_file (temp_html_path env) (HtmlFile text) fs1
                   in case wkhtmltopdf_error env of
                        Some raised \<Rightarrow>
                          pdf_inner_handler env e nested_e raised output_path
                            (if exn_cls raised = SubprocessErrorC
                             then (case wkhtmltopdf_leftover env of
                                     None \<Rightarrow> fs2
                                   | Some partial \<Rightarrow> write_file output_path partial fs2)
                             else fs2)
                      | None \<Rightarrow>
                          (let fs3 = write_file output_path (WkhtmltopdfFile text) fs2
                           in case unlink_error env (temp_html_path env) of
                                Some raised \<Rightarrow>
                                  pdf_inner_handler env e nested_e raised output_path fs3
                              | None \<Rightarrow>
                                  (let fs4 = remove_file (temp_html_path env) fs3
                                   in case unlink_error env (temp_txt_path env) of
                                        Some raised \<Rightarrow>
                                          pdf_inner_handler env e nested_e raised output_path fs4
                                      | None \<Rightarrow>
                                          (Inr output_path,
                                           remove_file (temp_txt_path env) fs4))))))"

definition create_pdf_file :: "render_env \<Rightarrow> string \<Rightarrow> string \<Rightarrow> fsys \<Rightarrow> render_result" where
  "create_pdf_file env text output_path fs =
     (case fpdf_error env of
        None \<Rightarrow> (Inr output_path, write_file output_path (FpdfFile (fpdf_body text)) fs)
      | Some e \<Rightarrow>
          (case reportlab_error env of
             None \<Rightarrow>
               (Inr output_path, write_file output_path (ReportlabFile (reportlab_body text)) fs)
           | Some nested_e \<Rightarrow> pdf_tier3 env e nested_e text output_path fs))"

text \<open>
  \<^verbatim>\<open>create_image_file\<close>. The canvas is the list of the texts drawn, each with its
  position; \<^verbatim>\<open>Image.new\<close> is the empty canvas and \<^verbatim>\<open>img.save\<close> writes the
  canvas to the output path. \<open>wrap_words\<close> is the inner loop over the words of a long
  line, \<open>draw_line\<close> the body of the outer loop up to its page check, \<open>draw_lines\<close>
  the outer loop.
\<close>

definition width :: nat where
  "width = 1000"

definition height :: nat where
  "height = 1400"

definition save_image :: "render_env \<Rightarrow> string \<Rightarrow> string \<Rightarrow> canvas \<Rightarrow> fsys \<Rightarrow> exn + fsys" where
  "save_image env output_path format img fs =
     (case write_error env output_path of
        Some e \<Rightarrow> Inl e
      | None \<Rightarrow> Inr (write_file output_path (ImageFile format img) fs))"

fun wrap_words ::
  "render_env \<Rightarrow> string \<Rightarrow> string \<Rightarrow> string list \<Rightarrow> string \<times> canvas \<times> nat \<times> fsys \<Rightarrow>
     exn + (string \<times> canvas \<times> nat \<times> fsys)" where
  "wrap_words env output_path format [] st = Inr st"
| "wrap_words env output_path format (word # words) (current_line, img, y, fs) =
     (let test_line = (if current_line \<noteq> [] then current_line @ '' '' @ word else word)
      in if getlength env test_line \<le> real (width - 40)
         then wrap_words env output_path format words (test_line, img, y, fs)
         else
           (let img1 = img @ [((20, y), current_line)];
                y1 = y + 20
            in if y1 > height - 20
               then (case save_image env output_path format img1 fs of
                       Inl e \<Rightarrow> Inl e
                     | Inr fs1 \<Rightarrow> wrap_words env output_path format words (word, [], 20, fs1))
               else wrap_words env output_path format words (word, img1, y1, fs)))"

definition draw_line ::
  "render_env \<Rightarrow> string \<Rightarrow> string \<Rightarrow> string \<Rightarrow> canvas \<times> nat \<times> fsys \<Rightarrow>
     exn + (canvas \<times> nat \<times> fsys)" where
  "draw_line env output_path format line st =
     (case st of (img, y, fs) \<Rightarrow>
        if getlength env line > real (width - 40)
        then (case wrap_words env output_path format (split_ws line) ([], img, y, fs) of
                Inl e \<Rightarrow> Inl e
              | Inr (current_line, img1, y1, fs1) \<Rightarrow>
                  if current_line \<noteq> []
                  then Inr (img1 @ [((20, y1), current_line)], y1 + 20, fs1)
                  else Inr (img1, y1, fs1))
        else Inr (img @ [((20, y), line)], y + 20, fs))"

fun draw_lines ::
  "render_env \<Rightarrow> string \<Rightarrow> string \<Rightarrow> string list \<Rightarrow> canvas \<times> nat \<times> fsys \<Rightarrow>
     exn + (canvas \<times> nat \<times> fsys)" where
  "draw_lines env output_path format [] st = Inr st"
| "draw_lines env output_path format (line # lines) st =
     (case draw_line env output_path format line st of
        Inl e \<Rightarrow> Inl e
      | Inr (img1, y1, fs1) \<Rightarrow>
          if y1 > height - 20
          then (case save_image env output_path format img1 fs1 of
                  Inl e \<Rightarrow> Inl e
                | Inr fs2 \<Rightarrow> draw_lines env output_path format lines ([], 20, fs2))
          else draw_lines env output_path format lines (img1, y1, fs1))"

text \<open>
  A save can only fail at the output path, where \<open>write_error\<close> is the same at every
  save: when the loop raises, no save has been made, and the file system is as it was.
\<close>

definition create_image_file ::
  "render_env \<Rightarrow> string \<Rightarrow> string \<Rightarrow> string \<Rightarrow> fsys \<Rightarrow> render_result" where
  "create_image_file env text output_path format fs =
     (case draw_lines env output_path format (split_on NL text) ([], 20, fs) of
        Inl e \<Rightarrow> (Inl (Exn ExceptionC (''Error creating image file: '' @ exn_str e)), fs)
      | Inr (img, y, fs1) \<Rightarrow>
          (case save_image env output_path format img fs1 of
             Inl e \<Rightarrow> (Inl (Exn ExceptionC (''Error creating image file: '' @ exn_str e)), fs1)
           | Inr fs2 \<Rightarrow> (Inr output_path, fs2)))"

definition generate_output_file ::
  "render_env \<Rightarrow> string \<Rightarrow> string \<Rightarrow> string \<Rightarrow> fsys \<Rightarrow> render_result" where
  "generate_output_file env text output_format output_path fs =
     (if output_format = ''txt'' then create_text_file env text output_path fs
      else if output_format = ''docx'' then create_docx_file env text output_path fs
      else if output_format = ''pdf'' then create_pdf_file env text output_path fs
      else if output_format = ''jpeg'' then create_image_file env text output_path ''JPEG'' fs
      else if output_format = ''png'' then create_image_file env text output_path ''PNG'' fs
      else (Inl (Exn ValueErrorC (''Unsupported output format: '' @ output_format)), fs))"

text \<open>
  What \<^verbatim>\<open>create_image_file\<close> draws, without the canvases: a line that fits is drawn
  as it is; a longer line is drawn word by word, a piece being closed when the next word
  no longer fits. \<open>wrap_pieces\<close> gives the pieces closed inside the loop over the words
  and the piece left when the loop ends, which is drawn when it is not empty.
\<close>

fun wrap_pieces :: "render_env \<Rightarrow> string list \<Rightarrow> string \<Rightarrow> string list \<times> string" where
  "wrap_pieces env [] current_line = ([], current_line)"
| "wrap_pieces env (word # words) current_line =
     (let test_line = (if current_line \<noteq> [] then current_line @ '' '' @ word else word)
      in if getlength env test_line \<le> real (width - 40)
         then wrap_pieces env words test_line
         else (case wrap_pieces env words word of
                 (front, remainder) \<Rightarrow> (current_line # front, remainder)))"

definition line_pieces :: "render_env \<Rightarrow> string \<Rightarrow> string list" where
  "line_pieces env line =
     (if getlength env line > real (width - 40)
      then (case wrap_pieces env (split_ws line) [] of
              (front, remainder) \<Rightarrow> front @ (if remainder \<noteq> [] then [remainder] else []))
      else [line])"

definition drawn_lines :: "render_env \<Rightarrow> string \<Rightarrow> string list" where
  "drawn_lines env text = concat (map (line_pieces env) (split_on NL text))"

text \<open>
  A canvas takes 69 lines: the cursor starts at 20 and moves down by 20 with each line,
  and the canvas is flushed as soon as the cursor has passed 1380. \<open>place\<close> puts lines
  on a fresh canvas. Of the lines drawn so far, \<open>pending\<close> are those on the current
  canvas, that is, those after the last full canvas, and \<open>flushed\<close> are the writes
  made for the full canvases.
\<close>

definition canvas_lines :: nat where
  "canvas_lines = 69"

definition place :: "string list \<Rightarrow> canvas" where
  "place ls = zip (map (\<lambda>k. (20, 20 + 20 * k)) [0..<length ls]) ls"

definition pending :: "string list \<Rightarrow> string list" where
  "pending ds = drop (canvas_lines * (length ds div canvas_lines)) ds"

definition flushed :: "string \<Rightarrow> string \<Rightarrow> string list \<Rightarrow> (string \<times> file_content) list" where
  "flushed output_path format ds =
     map (\<lambda>j. (output_path,
               ImageFile format (place (take canvas_lines (drop (canvas_lines * j) ds)))))
       [0..<length ds div canvas_lines]"

text \<open>
  The state of the renderer after the lines \<open>ds\<close> have been drawn, starting from the
  file system \<open>fs0\<close>.
\<close>

definition canvas_state ::
  "string \<Rightarrow> string \<Rightarrow> fsys \<Rightarrow> string list \<Rightarrow> canvas \<times> nat \<times> fsys \<Rightarrow> bool" where
  "canvas_state output_path format fs0 ds st =
     (case st of (img, y, fs) \<Rightarrow>
        img = place (pending ds) \<and>
        y = 20 + 20 * length (pending ds) \<and>
        writes fs = writes fs0 @ flushed output_path format ds \<and>
        files fs =
          (if flushed output_path format ds = [] then files fs0
           else (files fs0)(output_path \<mapsto> snd (last (flushed output_path format ds)))))"

definition plain_env :: render_env where
  "plain_env =
     \<lparr>write_error = (\<lambda>p. None), docx_styled_error = None, docx_plain_error = None,
      fpdf_error = None, reportlab_error = None,
      temp_txt_path = ''/tmp/t.txt'', temp_txt_error = None,
      temp_html_path = ''/tmp/t.html'', temp_html_error = None,
      wkhtmltopdf_error = None, wkhtmltopdf_leftover = None, unlink_error = (\<lambda>p. None),
      getlength = (\<lambda>s. real (length s))\<rparr>"

definition empty_fs :: fsys where
  "empty_fs = \<lparr>files = Map.empty, writes = []\<rparr>"

definition seventy_lines :: string where
  "seventy_lines = concat (replicate 69 [CHR ''a'', NL]) @ ''b''"

section \<open>Storage entities (models.py)\<close>

text \<open>
  The four tables are lists of rows; a foreign key is the id of the row it refers to. The
  timestamps, which no operation reads, are left out. The state of the application is
  the tables with the next primary key of each, the stored files, the messages shown to
  the user and the calls made so far to the external translation endpoint (text, source
  code, target code).
\<close>

record document =
  doc_id :: nat
  doc_title :: string
  doc_file :: string
  doc_file_type :: string
  doc_status :: string

record ocr_result =
  ocr_id :: nat
  ocr_document :: nat
  ocr_text :: string
  ocr_language :: string

record translation =
  tr_id :: nat
  tr_ocr_result :: nat
  tr_text :: string
  tr_source_language :: string
  tr_target_language :: string

record output_file =
  out_id :: nat
  out_translation :: nat
  out_file :: string
  out_file_type :: string

datatype message_level = MsgInfo | MsgSuccess | MsgError

record state =
  document_rows :: "document list"
  ocr_result_rows :: "ocr_result list"
  translation_rows :: "translation list"
  output_file_rows :: "output_file list"
  next_document_id :: nat
  next_ocr_result_id :: nat
  next_translation_id :: nat
  next_output_file_id :: nat
  storage :: fsys
  user_messages :: "(message_level \<times> string) list"
  translate_calls :: "(string \<times> string option \<times> string) list"

definition add_message :: "message_level \<Rightarrow> string \<Rightarrow> state \<Rightarrow> state" where
  "add_message level msg st = st\<lparr>user_messages := user_messages st @ [(level, msg)]\<rparr>"

text \<open>
  \<^verbatim>\<open>get_file_path\<close> and \<^verbatim>\<open>get_output_path\<close>; the fresh UUID is an argument.
\<close>

definition get_file_path :: "string \<Rightarrow> string \<Rightarrow> string" where
  "get_file_path uuid filename =
     (let ext = last (split_on (CHR ''.'') filename)
      in path_join ''uploads'' (uuid @ ''.'' @ ext))"

definition get_output_path :: "string \<Rightarrow> string \<Rightarrow> string" where
  "get_output_path uuid filename =
     (let ext = last (split_on (CHR ''.'') filename)
      in path_join ''outputs'' (uuid @ ''.'' @ ext))"

text \<open>
  \<^verbatim>\<open>instance.save()\<close> of an existing row writes the fields of the instance over the
  row with its primary key.
\<close>

definition save_document :: "document \<Rightarrow> state \<Rightarrow> state" where
  "save_document inst st =
     st\<lparr>document_rows := map (\<lambda>d. if doc_id d = doc_id inst then inst else d) (document_rows st)\<rparr>"

definition save_translation :: "translation \<Rightarrow> state \<Rightarrow> state" where
  "save_translation inst st =
     st\<lparr>translation_rows := map (\<lambda>t. if tr_id t = tr_id inst then inst else t) (translation_rows st)\<rparr>"

text \<open>
  \<^verbatim>\<open>OCRResult.objects.create\<close>. The one-to-one field makes the document column
  unique: a second row for the same document is refused with an integrity error.
\<close>

definition create_ocr_result :: "nat \<Rightarrow> string \<Rightarrow> string \<Rightarrow> state \<Rightarrow> exn + (ocr_result \<times> state)" where
  "create_ocr_result document_id text language st =
     (if \<exists>r \<in> set (ocr_result_rows st). ocr_document r = document_id
      then Inl (Exn ExceptionC ''UNIQUE constraint failed: translator_ocrresult.document_id'')
      else
        (let row = \<lparr>ocr_id = next_ocr_result_id st, ocr_document = document_id,
                    ocr_text = text, ocr_language = language\<rparr>
         in Inr (row, st\<lparr>ocr_result_rows := ocr_result_rows st @ [row],
                          next_ocr_result_id := next_ocr_result_id st + 1\<rparr>)))"


definition create_output_file :: "nat \<Rightarrow> string \<Rightarrow> string \<Rightarrow> state \<Rightarrow> output_file \<times> state" where
  "create_output_file translation_id file file_type st =
     (let row = \<lparr>out_id = next_output_file_id st, out_translation = translation_id,
                 out_file = file, out_file_type = file_type\<rparr>
      in (row, st\<lparr>output_file_rows := output_file_rows st @ [row],
                   next_output_file_id := next_output_file_id st + 1\<rparr>))"

text \<open>
  \<^verbatim>\<open>super().delete()\<close>, the framework's \<^verbatim>\<open>Model.delete\<close>: it removes the row and,
  through the \<^verbatim>\<open>on_delete=models.CASCADE\<close> keys declared in models.py, the rows
  that refer to it, and theirs in turn. The framework deletes these related rows itself;
  it does not call the \<^verbatim>\<open>delete\<close> methods that the model classes define.
\<close>

definition model_delete_output_file :: "nat \<Rightarrow> state \<Rightarrow> state" where
  "model_delete_output_file output_id st =
     st\<lparr>output_file_rows := filter (\<lambda>f. out_id f \<noteq> output_id) (output_file_rows st)\<rparr>"

definition model_delete_document :: "nat \<Rightarrow> state \<Rightarrow> state" where
  "model_delete_document document_id st =
     (let ocr_ids = map ocr_id (filter (\<lambda>r. ocr_document r = document_id) (ocr_result_rows st));
          tr_ids = map tr_id (filter (\<lambda>t. tr_ocr_result t \<in> set ocr_ids) (translation_rows st))
      in st\<lparr>document_rows := filter (\<lambda>d. doc_id d \<noteq> document_id) (document_rows st),
             ocr_result_rows := filter (\<lambda>r. ocr_document r \<noteq> document_id) (ocr_result_rows st),
             translation_rows := filter (\<lambda>t. tr_ocr_result t \<notin> set ocr_ids) (translation_rows st),
             output_file_rows := filter (\<lambda>f. out_translation f \<notin> set tr_ids) (output_file_rows st)\<rparr>)"

text \<open>
  \<^verbatim>\<open>Document.delete\<close> and \<^verbatim>\<open>OutputFile.delete\<close>: remove the stored file when the
  file field is set and the file exists, then delete the row through the framework.
  The path of a file field is its name under the media root.
\<close>

definition Document_delete :: "string \<Rightarrow> document \<Rightarrow> state \<Rightarrow> state" where
  "Document_delete media_root self st =
     (let path = path_join media_root (doc_file self);
          st1 = (if doc_file self \<noteq> [] then
                   (if isfile (storage st) path
                    then st\<lparr>storage := remove_file path (storage st)\<rparr>
                    else st)
                 else st)
      in model_delete_document (doc_id self) st1)"

definition OutputFile_delete :: "string \<Rightarrow> output_file \<Rightarrow> state \<Rightarrow> state" where
  "OutputFile_delete media_root self st =
     (let path = path_join media_root (out_file self);
          st1 = (if out_file self \<noteq> [] then
                   (if isfile (storage st) path
                    then st\<lparr>storage := remove_file path (storage st)\<rparr>
                    else st)
                 else st)
      in model_delete_output_file (out_id self) st1)"

section \<open>Forms (forms.py)\<close>

text \<open>
  A request carries its method and the submitted fields and files (a file is its name
  and its content). Validation is done by the form fields of the framework and by the
  methods of forms.py. The fields are modelled as the framework has them:
  \<^item> a character field strips the submitted text, refuses an empty text when the field
    is required, a text longer than the maximum length of the model field, and a text
    that holds a null character; its cleaned value is the stripped text;
  \<^item> a file field refuses a missing file, a file name longer than its maximum length
    (100 for a model file field that declares none), an empty file name and an empty
    file;
  \<^item> a choice field accepts exactly the declared choices.
\<close>

record request =
  req_method :: string
  req_POST :: "string \<rightharpoonup> string"
  req_FILES :: "string \<rightharpoonup> (string \<times> string)"

datatype response = Redirect string "nat option" | Render string | Http404

definition CharField_clean :: "bool \<Rightarrow> nat option \<Rightarrow> string option \<Rightarrow> string option" where
  "CharField_clean required max_length submitted =
     (let v = strip (case submitted of None \<Rightarrow> [] | Some s \<Rightarrow> s)
      in if required \<and> v = [] then None
         else if (case max_length of None \<Rightarrow> False | Some m \<Rightarrow> length v > m) then None
         else if CHR 0x00 \<in> set v then None
         else Some v)"

definition FileField_clean ::
  "nat \<Rightarrow> (string \<times> string) option \<Rightarrow> (string \<times> string) option" where
  "FileField_clean max_length submitted =
     (case submitted of
        None \<Rightarrow> None
      | Some (name, content) \<Rightarrow>
          if length name > max_length then None
          else if name = [] then None
          else if content = [] then None
          else Some (name, content))"

definition ChoiceField_clean :: "string list \<Rightarrow> string option \<Rightarrow> string option" where
  "ChoiceField_clean choices submitted =
     (case submitted of
        None \<Rightarrow> None
      | Some v \<Rightarrow> if v \<in> set choices then Some v else None)"

definition new_document :: document where
  "new_document =
     \<lparr>doc_id = 0, doc_title = [], doc_file = [], doc_file_type = [], doc_status = ''pending''\<rparr>"

text \<open>
  \<^verbatim>\<open>DocumentUploadForm.clean_file\<close>: the validation error, or the instance with its
  file type stored and the file. A missing file, or one without a name, is falsy and is
  returned as it is.
\<close>

definition clean_file ::
  "document \<Rightarrow> (string \<times> string) option \<Rightarrow> string + (document \<times> (string \<times> string) option)" where
  "clean_file instance file =
     (case file of
        None \<Rightarrow> Inr (instance, file)
      | Some (name, content) \<Rightarrow>
          if name = [] then Inr (instance, file)
          else
            (let file_type = lower (last (split_on (CHR ''.'') name))
             in if file_type \<notin> set [''pdf'', ''png'', ''jpg'', ''jpeg'', ''tiff'', ''bmp'', ''gif'']
                then Inl (''Unsupported file type. '' @
                          ''Please upload PDF, PNG, JPEG, TIFF, BMP, or GIF files.'')
                else Inr (instance\<lparr>doc_file_type := file_type\<rparr>, file)))"

text \<open>
  \<^verbatim>\<open>form.is_valid()\<close> of the upload form, a model form over the fields
  \<^verbatim>\<open>file\<close> and \<^verbatim>\<open>title\<close> of Document: the file field and then
  \<^verbatim>\<open>clean_file\<close> must accept the file, and the title, which may be blank, must be a
  text of at most 255 characters. The result is the instance to save with the file, or
  the form's error.
\<close>

definition DocumentUploadForm_clean :: "request \<Rightarrow> string + (document \<times> (string \<times> string))" where
  "DocumentUploadForm_clean request =
     (case FileField_clean 100 (req_FILES request ''file'') of
        None \<Rightarrow> Inl ''The file field has errors.''
      | Some cleaned \<Rightarrow>
          (case clean_file new_document (Some cleaned) of
             Inl err \<Rightarrow> Inl err
           | Inr (instance, file) \<Rightarrow>
               (case CharField_clean False (Some 255) (req_POST request ''title'') of
                  None \<Rightarrow> Inl ''The title field has errors.''
                | Some title \<Rightarrow> Inr (instance\<lparr>doc_title := title\<rparr>, cleaned))))"

text \<open>
  \<^verbatim>\<open>form.save()\<close>: the file is stored under the name that \<^verbatim>\<open>get_file_path\<close>
  gives it and the row is inserted with the next primary key.
\<close>

definition DocumentUploadForm_save ::
  "string \<Rightarrow> string \<Rightarrow> document \<Rightarrow> (string \<times> string) \<Rightarrow> state \<Rightarrow> document \<times> state" where
  "DocumentUploadForm_save media_root uuid instance file st =
     (let name = get_file_path uuid (fst file);
          document = instance\<lparr>doc_id := next_document_id st, doc_file := name\<rparr>
      in (document,
          st\<lparr>document_rows := document_rows st @ [document],
             next_document_id := next_document_id st + 1,
             storage := write_file (path_join media_root name) (UploadedFile (snd file))
                          (storage st)\<rparr>))"

text \<open>
  The language forms are model forms over a character field of at most 10 characters.
  Their constructors assign the lists below to the attribute \<^verbatim>\<open>choices\<close> of the form
  field; a character field does not validate against that attribute, so that every
  code of 1 to 10 characters is accepted.
\<close>

definition ocr_language_choices :: "string list" where
  "ocr_language_choices =
     [''eng'', ''fra'', ''deu'', ''spa'', ''ita'', ''por'', ''rus'', ''jpn'', ''chi_sim'',
      ''chi_tra'', ''kor'', ''ara'', ''hin'', ''vie'', ''nld'', ''swe'', ''fin'', ''pol'',
      ''tur'', ''ell'', ''heb'']"

definition OCRLanguageForm_clean :: "request \<Rightarrow> string option" where
  "OCRLanguageForm_clean request = CharField_clean True (Some 10) (req_POST request ''language'')"

definition translation_language_choices :: "string list" where
  "translation_language_choices =
     [''EN-US'', ''EN-GB'', ''FR'', ''DE'', ''ES'', ''IT'', ''PT-PT'', ''PT-BR'', ''RU'', ''JA'',
      ''ZH'', ''NL'', ''PL'', ''BG'', ''CS'', ''DA'', ''ET'', ''FI'', ''EL'', ''HU'', ''LV'',
      ''LT'', ''RO'', ''SK'', ''SL'', ''SV'']"


definition OUTPUT_FORMATS :: "string list" where
  "OUTPUT_FORMATS = [''pdf'', ''docx'', ''txt'', ''jpeg'', ''png'']"

text \<open>
  The cleaned data of the output form, a plain form with a required character field
  without maximum length and a choice field: the format and the stripped text.
\<close>

definition OutputFormatForm_clean :: "request \<Rightarrow> (string \<times> string) option" where
  "OutputFormatForm_clean request =
     (case CharField_clean True None (req_POST request ''translated_text'') of
        None \<Rightarrow> None
      | Some translated_text \<Rightarrow>
          (case ChoiceField_clean OUTPUT_FORMATS (req_POST request ''output_format'') of
             None \<Rightarrow> None
           | Some output_format \<Rightarrow> Some (output_format, translated_text)))"

section \<open>Translation adapter (utils.py)\<close>



section \<open>Pipeline controller (views.py)\<close>

definition upload_view :: "string \<Rightarrow> string \<Rightarrow> request \<Rightarrow> state \<Rightarrow> response \<times> state" where
  "upload_view media_root uuid request st =
     (if req_method request = ''POST'' then
        (case DocumentUploadForm_clean request of
           Inl err \<Rightarrow> (Render ''upload'', st)
         | Inr (instance, file) \<Rightarrow>
             (case DocumentUploadForm_save media_root uuid instance file st of
                (document, st1) \<Rightarrow>
                  (Redirect ''translator:ocr'' (Some (doc_id document)),
                   add_message MsgSuccess ''Document uploaded successfully!'' st1)))
      else (Render ''upload'', st))"

text \<open>
  \<^verbatim>\<open>ocr_view\<close>. \<open>ocr_view_failed\<close> is the \<^verbatim>\<open>except Exception\<close> handler,
  \<open>ocr_view_process\<close> the body of the \<^verbatim>\<open>try\<close>.
\<close>

definition ocr_view_failed :: "document \<Rightarrow> exn \<Rightarrow> state \<Rightarrow> response \<times> state" where
  "ocr_view_failed document e st =
     (Render ''ocr'',
      add_message MsgError (''OCR processing failed: '' @ exn_str e)
        (save_document (document\<lparr>doc_status := ''failed''\<rparr>) st))"

definition ocr_view_process ::
  "ocr_env \<Rightarrow> string \<Rightarrow> document \<Rightarrow> string \<Rightarrow> state \<Rightarrow> response \<times> state" where
  "ocr_view_process env media_root document language st =
     (let document1 = document\<lparr>doc_status := ''processing''\<rparr>;
          st1 = save_document document1 st
      in case perform_ocr env (path_join media_root (doc_file document1)) language of
           Inl e \<Rightarrow> ocr_view_failed document1 e st1
         | Inr ocr_text' \<Rightarrow>
             (case create_ocr_result (doc_id document1) ocr_text' language st1 of
                Inl e \<Rightarrow> ocr_view_failed document1 e st1
              | Inr (ocr_result, st2) \<Rightarrow>
                  (let document2 = document1\<lparr>doc_status := ''completed''\<rparr>;
                       st3 = save_document document2 st2
                   in (Redirect ''translator:translate'' (Some (ocr_id ocr_result)),
                       add_message MsgSuccess ''OCR processing completed successfully!'' st3))))"

definition ocr_view :: "ocr_env \<Rightarrow> string \<Rightarrow> request \<Rightarrow> nat \<Rightarrow> state \<Rightarrow> response \<times> state" where
  "ocr_view env media_root request document_id st =
     (case find (\<lambda>d. doc_id d = document_id) (document_rows st) of
        None \<Rightarrow> (Http404, st)
      | Some document \<Rightarrow>
          (case find (\<lambda>r. ocr_document r = doc_id document) (ocr_result_rows st) of
             Some existing \<Rightarrow>
               (Redirect ''translator:translate'' (Some (ocr_id existing)),
                add_message MsgInfo ''OCR has already been performed on this document.'' st)
           | None \<Rightarrow>
               if req_method request = ''POST'' then
                 (case OCRLanguageForm_clean request of
                    None \<Rightarrow> (Render ''ocr'', st)
                  | Some language \<Rightarrow> ocr_view_process env media_root document language st)
               else (Render ''ocr'', st)))"



text \<open>\<^verbatim>\<open>str.upper()\<close> on the ASCII letters, as the format tokens need it.\<close>

definition upper_char :: "char \<Rightarrow> char" where
  "upper_char c =
     (case map_of (zip ''abcdefghijklmnopqrstuvwxyz'' ''ABCDEFGHIJKLMNOPQRSTUVWXYZ'') c of
        Some u \<Rightarrow> u
      | None \<Rightarrow> c)"

definition upper :: "string \<Rightarrow> string" where
  "upper s = map upper_char s"

text \<open>
  \<^verbatim>\<open>output_format_view\<close>. \<open>output_format_view_process\<close> is the body of the
  \<^verbatim>\<open>try\<close>; creating the output directory is not modelled.
\<close>

definition output_format_view_process ::
  "render_env \<Rightarrow> string \<Rightarrow> string \<Rightarrow> translation \<Rightarrow> string \<Rightarrow> string \<Rightarrow> state \<Rightarrow>
     response \<times> state" where
  "output_format_view_process env media_root uuid translation output_format edited_text st =
     (let output_dir = path_join media_root ''outputs'';
          filename = uuid @ ''.'' @ output_format;
          output_path = path_join output_dir filename
      in case generate_output_file env edited_text output_format output_path (storage st) of
           (Inl e, fs1) \<Rightarrow>
             (Render ''output_format'',
              add_message MsgError (''Output file generation failed: '' @ exn_str e)
                (st\<lparr>storage := fs1\<rparr>))
         | (Inr generated, fs1) \<Rightarrow>
             (let relative_path = path_join ''outputs'' filename
              in case create_output_file (tr_id translation) relative_path output_format
                        (st\<lparr>storage := fs1\<rparr>) of
                   (output_file, st2) \<Rightarrow>
                     (let st3 =
                        (if edited_text \<noteq> tr_text translation
                         then add_message MsgInfo
                                ''Translation text has been updated with your edits.''
                                (save_translation (translation\<lparr>tr_text := edited_text\<rparr>) st2)
                         else st2)
                      in (Redirect ''translator:result'' (Some (out_id output_file)),
                          add_message MsgSuccess
                            (upper output_format @ '' file generated successfully!'') st3))))"

definition output_format_view ::
  "render_env \<Rightarrow> string \<Rightarrow> string \<Rightarrow> request \<Rightarrow> nat \<Rightarrow> state \<Rightarrow> response \<times> state" where
  "output_format_view env media_root uuid request translation_id st =
     (case find (\<lambda>t. tr_id t = translation_id) (translation_rows st) of
        None \<Rightarrow> (Http404, st)
      | Some translation \<Rightarrow>
          if req_method request = ''POST'' then
            (case OutputFormatForm_clean request of
               None \<Rightarrow> (Render ''output_format'', st)
             | Some (output_format, edited_text) \<Rightarrow>
                 output_format_view_process env media_root uuid translation output_format
                   edited_text st)
          else (Render ''output_format'', st))"

definition delete_document_view :: "string \<Rightarrow> request \<Rightarrow> nat \<Rightarrow> state \<Rightarrow> response \<times> state" where
  "delete_document_view media_root request document_id st =
     (case find (\<lambda>d. doc_id d = document_id) (document_rows st) of
        None \<Rightarrow> (Http404, st)
      | Some document \<Rightarrow>
          if req_method request = ''POST'' then
            (Redirect ''translator:home'' None,
             add_message MsgSuccess ''Document deleted successfully!''
               (Document_delete media_root document st))
          else (Redirect ''translator:document_detail'' (Some (doc_id document)), st))"

text \<open>A document awaiting OCR, and an environment whose engine succeeds, or fails.\<close>

definition scan_doc :: document where
  "scan_doc =
     \<lparr>doc_id = 1, doc_title = ''Scan'', doc_file = ''uploads/u1.png'', doc_file_type = ''png'',
      doc_status = ''pending''\<rparr>"

definition scan_state :: state where
  "scan_state =
     \<lparr>document_rows = [scan_doc], ocr_result_rows = [], translation_rows = [],
      output_file_rows = [], next_document_id = 2, next_ocr_result_id = 1,
      next_translation_id = 1, next_output_file_id = 1,
      storage = \<lparr>files = [''/media/uploads/u1.png'' \<mapsto> UploadedFile ''bytes''], writes = []\<rparr>,
      user_messages = [], translate_calls = []\<rparr>"

definition good_ocr_env :: ocr_env where
  "good_ocr_env =
     \<lparr>image_open = (\<lambda>p. Inr 7), image_to_string = (\<lambda>img lang. Inr ''hello''),
      convert_from_path = (\<lambda>p. Inr [7])\<rparr>"

definition bad_ocr_env :: ocr_env where
  "bad_ocr_env =
     \<lparr>image_open = (\<lambda>p. Inl (Exn ExceptionC ''cannot identify image file'')),
      image_to_string = (\<lambda>img lang. Inr ''hello''),
      convert_from_path = (\<lambda>p. Inr [7])\<rparr>"

definition ocr_post :: request where
  "ocr_post = \<lparr>req_method = ''POST'', req_POST = [''language'' \<mapsto> ''eng''], req_FILES = Map.empty\<rparr>"

text \<open>
  The extension of an upload as \<^verbatim>\<open>clean_file\<close> and \<^verbatim>\<open>get_file_path\<close> take it:
  \<^verbatim>\<open>name.split('.')[-1]\<close>, the text after the last dot, the whole name when it has
  no dot.
\<close>

definition upload_extension :: "string \<Rightarrow> string" where
  "upload_extension name = last (split_on (CHR ''.'') name)"

text \<open>States with one OCR result, in English and in Hebrew, and a translation service that answers.\<close>

definition ocr_row :: "string \<Rightarrow> ocr_result" where
  "ocr_row language =
     \<lparr>ocr_id = 1, ocr_document = 1, ocr_text = ''hello'', ocr_language = language\<rparr>"


text \<open>A document that has an OCR result while its status is still \<^verbatim>\<open>processing\<close>.\<close>

definition stuck_state :: state where
  "stuck_state =
     \<lparr>document_rows = [scan_doc\<lparr>doc_status := ''processing''\<rparr>],
      ocr_result_rows = [ocr_row ''eng''], translation_rows = [],
      output_file_rows = [], next_document_id = 2, next_ocr_result_id = 2,
      next_translation_id = 1, next_output_file_id = 1,
      storage = \<lparr>files = [''/media/uploads/u1.png'' \<mapsto> UploadedFile ''bytes''], writes = []\<rparr>,
      user_messages = [], translate_calls = []\<rparr>"



definition upload_post :: "string \<Rightarrow> request" where
  "upload_post name =
     \<lparr>req_method = ''POST'', req_POST = [''title'' \<mapsto> ''Scan''],
      req_FILES = [''file'' \<mapsto> (name, ''bytes'')]\<rparr>"

definition empty_upload_post :: "string \<Rightarrow> request" where
  "empty_upload_post name =
     \<lparr>req_method = ''POST'', req_POST = [''title'' \<mapsto> ''Scan''],
      req_FILES = [''file'' \<mapsto> (name, [])]\<rparr>"

definition fresh_state :: state where
  "fresh_state =
     \<lparr>document_rows = [], ocr_result_rows = [], translation_rows = [],
      output_file_rows = [], next_document_id = 1, next_ocr_result_id = 1,
      next_translation_id = 1, next_output_file_id = 1,
      storage = empty_fs, user_messages = [], translate_calls = []\<rparr>"


text \<open>
  The path as the claim words it: the \<^verbatim>\<open>.pdf\<close> suffix rewritten to \<^verbatim>\<open>.txt\<close>.
\<close>

definition rewrite_pdf_suffix :: "string \<Rightarrow> string" where
  "rewrite_pdf_suffix p =
     (if suffix ''.pdf'' p then take (length p - 4) p @ ''.txt'' else p)"

text \<open>\<open>occurs_in old s\<close>: the string \<open>old\<close> occurs in \<open>s\<close>.\<close>

fun occurs_in :: "string \<Rightarrow> string \<Rightarrow> bool" where
  "occurs_in old [] = (old = [])"
| "occurs_in old (c # cs) = (prefix old (c # cs) \<or> occurs_in old cs)"

text \<open>An environment in which both PDF libraries fail and the conversion tool is missing.\<close>

definition missing_tool_env :: render_env where
  "missing_tool_env =
     \<lparr>write_error = (\<lambda>p. None), docx_styled_error = None, docx_plain_error = None,
      fpdf_error = Some (Exn ExceptionC ''No module named fpdf''),
      reportlab_error = Some (Exn ExceptionC ''cannot register font''),
      temp_txt_path = ''/tmp/t.txt'', temp_txt_error = None,
      temp_html_path = ''/tmp/t.html'', temp_html_error = None,
      wkhtmltopdf_error = Some (Exn FileNotFoundErrorC ''wkhtmltopdf''),
      wkhtmltopdf_leftover = None, unlink_error = (\<lambda>p. None),
      getlength = (\<lambda>s. real (length s))\<rparr>"

text \<open>
  The same environment on a machine where the media root is \<^verbatim>\<open>/srv/my.pdfs\<close>: files
  can be created in its \<^verbatim>\<open>outputs\<close> directory and in \<^verbatim>\<open>/tmp\<close>, and in no other
  directory, since no other exists.
\<close>

definition dotted_root_env :: render_env where
  "dotted_root_env =
     missing_tool_env
       \<lparr>write_error :=
          (\<lambda>p. if prefix ''/srv/my.pdfs/outputs/'' p \<or> prefix ''/tmp/'' p then None
                else Some (Exn FileNotFoundErrorC ''No such file or directory''))\<rparr>"

text \<open>A state with one translation, and the POST that renders an edited text.\<close>

definition translated_row :: translation where
  "translated_row =
     \<lparr>tr_id = 1, tr_ocr_result = 1, tr_text = ''bonjour'', tr_source_language = ''eng'',
      tr_target_language = ''FR''\<rparr>"

definition translated_state :: state where
  "translated_state =
     \<lparr>document_rows = [scan_doc\<lparr>doc_status := ''completed''\<rparr>],
      ocr_result_rows = [ocr_row ''eng''], translation_rows = [translated_row],
      output_file_rows = [], next_document_id = 2, next_ocr_result_id = 2,
      next_translation_id = 2, next_output_file_id = 1,
      storage = \<lparr>files = [''/media/uploads/u1.png'' \<mapsto> UploadedFile ''bytes''], writes = []\<rparr>,
      user_messages = [], translate_calls = [(''hello'', Some ''EN'', ''FR'')]\<rparr>"

definition render_post :: "string \<Rightarrow> string \<Rightarrow> request" where
  "render_post output_format edited_text =
     \<lparr>req_method = ''POST'',
      req_POST = [''output_format'' \<mapsto> output_format, ''translated_text'' \<mapsto> edited_text],
      req_FILES = Map.empty\<rparr>"

text \<open>
  A document that has gone through the whole pipeline: its upload and its rendered
  output are both stored.
\<close>

definition rendered_row :: output_file where
  "rendered_row =
     \<lparr>out_id = 1, out_translation = 1, out_file = ''outputs/o1.txt'', out_file_type = ''txt''\<rparr>"

definition rendered_state :: state where
  "rendered_state =
     \<lparr>document_rows = [scan_doc\<lparr>doc_status := ''completed''\<rparr>],
      ocr_result_rows = [ocr_row ''eng''], translation_rows = [translated_row],
      output_file_rows = [rendered_row], next_document_id = 2, next_ocr_result_id = 2,
      next_translation_id = 2, next_output_file_id = 2,
      storage =
        \<lparr>files = [''/media/uploads/u1.png'' \<mapsto> UploadedFile ''bytes'',
                   ''/media/outputs/o1.txt'' \<mapsto> TextFile ''bonjour''],
         writes = [(''/media/uploads/u1.png'', UploadedFile ''bytes''),
                   (''/media/outputs/o1.txt'', TextFile ''bonjour'')]\<rparr>,
      user_messages = [], translate_calls = [(''hello'', Some ''EN'', ''FR'')]\<rparr>"

definition delete_post :: request where
  "delete_post = \<lparr>req_method = ''POST'', req_POST = Map.empty, req_FILES = Map.empty\<rparr>"

section \<open>Verified properties\<close>

subsection \<open>The OCR adapter\<close>

lemma ocr_pdf_loop_concat:
  assumes "length texts = length imgs"
    and "\<forall>k < length imgs. image_to_string env (imgs ! k) language = Inr (texts ! k)"
  shows "ocr_pdf_loop env language i imgs acc =
           Inr (acc @ concat (map (\<lambda>k. page_delimiter (i + Suc k) @ texts ! k) [0..<length imgs]))"
  using assms
proof (induction imgs arbitrary: texts i acc)
  case Nil
  then show ?case by simp
next
  case (Cons img imgs)
  then obtain t ts where texts: "texts = t # ts"
    by (cases texts) auto
  from Cons.prems texts have len: "length ts = length imgs"
    by simp
  from Cons.prems(2) texts have hd: "image_to_string env img language = Inr t"
    by fastforce
  from Cons.prems(2) texts
  have tl: "\<forall>k < length imgs. image_to_string env (imgs ! k) language = Inr (ts ! k)"
    by fastforce
  have shift: "map (\<lambda>k. page_delimiter (i + Suc k) @ (t # ts) ! k) [0..<Suc (length imgs)] =
      (page_delimiter (Suc i) @ t) #
        map (\<lambda>k. page_delimiter (Suc i + Suc k) @ ts ! k) [0..<length imgs]"
    by (simp add: upt_conv_Cons map_Suc_upt [symmetric] del: upt_Suc)
  show ?case
    using Cons.IH [OF len tl, of "Suc i"] hd texts shift
    by (simp add: page_delimiter_def del: upt_Suc)
qed

text \<open>
  Claim C6. When the rasterizer yields the page images \<open>imgs\<close> and the engine extracts
  \<open>texts ! k\<close> from page \<open>k\<close>, \<^verbatim>\<open>ocr_pdf\<close> returns the concatenation, in page
  order, of the delimiter with the 1-indexed page number followed by that page's text.
\<close>

theorem ocr_pdf_concatenates_pages:
  assumes "convert_from_path env pdf_path = Inr imgs"
    and "length texts = length imgs"
    and "\<forall>k < length imgs. image_to_string env (imgs ! k) language = Inr (texts ! k)"
  shows "ocr_pdf env pdf_path language =
           Inr (concat (map (\<lambda>k. page_delimiter (Suc k) @ texts ! k) [0..<length imgs]))"
  using assms(1) ocr_pdf_loop_concat [OF assms(2) assms(3), of 0 "[]"]
  by (simp add: ocr_pdf_def)

theorem ocr_pdf_concatenates_pages_witness:
  "convert_from_path three_page_env ''doc.pdf'' = Inr [1, 2, 3] \<and>
   ocr_pdf three_page_env ''doc.pdf'' ''eng'' =
     Inr ([NL, NL] @ ''--- Page 1 ---'' @ [NL, NL] @ ''one'' @
          [NL, NL] @ ''--- Page 2 ---'' @ [NL, NL] @ ''two'' @
          [NL, NL] @ ''--- Page 3 ---'' @ [NL, NL] @ ''three'')"
  using ocr_pdf_concatenates_pages [of three_page_env "''doc.pdf''" "[1, 2, 3]"
      "[''one'', ''two'', ''three'']" "''eng''"]
  by (simp add: three_page_env_def page_delimiter_def str_nat.simps digit_char_def
      less_Suc_eq numeral_3_eq_3 upt_conv_Cons all_conj_distrib)

subsection \<open>The image renderer\<close>

lemma place_snoc: "place (ls @ [l]) = place ls @ [((20, 20 + 20 * length ls), l)]"
  by (simp add: place_def)

lemma length_pending: "length (pending ds) = length ds mod canvas_lines"
  by (simp add: pending_def minus_mult_div_eq_mod)

lemma full_chunk_append:
  assumes "canvas_lines * j + canvas_lines \<le> length ds"
  shows "take canvas_lines (drop (canvas_lines * j) (ds @ xs)) =
           take canvas_lines (drop (canvas_lines * j) ds)"
  using assms by simp

lemma full_chunk_bound:
  assumes "j < length ds div canvas_lines"
  shows "canvas_lines * j + canvas_lines \<le> length ds"
proof -
  have "Suc j \<le> length ds div canvas_lines"
    using assms by simp
  then have "canvas_lines * Suc j \<le> canvas_lines * (length ds div canvas_lines)"
    by (rule mult_le_mono2)
  then have "canvas_lines * j + canvas_lines \<le> canvas_lines * (length ds div canvas_lines)"
    by (simp add: ac_simps)
  moreover have "canvas_lines * (length ds div canvas_lines) \<le> length ds"
    by simp
  ultimately show ?thesis
    by (rule le_trans)
qed

lemma flushed_chunks_append:
  assumes "q \<le> length ds div canvas_lines"
  shows "map (\<lambda>j. (p, ImageFile f (place (take canvas_lines (drop (canvas_lines * j) (ds @ xs))))))
           [0..<q] =
         map (\<lambda>j. (p, ImageFile f (place (take canvas_lines (drop (canvas_lines * j) ds)))))
           [0..<q]"
proof (rule map_cong [OF refl])
  fix j
  assume "j \<in> set [0..<q]"
  then have "j < length ds div canvas_lines"
    using assms by simp
  from full_chunk_append [OF full_chunk_bound [OF this]]
  show "(p, ImageFile f (place (take canvas_lines (drop (canvas_lines * j) (ds @ xs))))) =
      (p, ImageFile f (place (take canvas_lines (drop (canvas_lines * j) ds))))"
    by (simp only:)
qed

lemma pending_flushed_keep:
  assumes "Suc (length (pending ds)) < canvas_lines"
  shows "pending (ds @ [l]) = pending ds @ [l]"
    and "flushed p f (ds @ [l]) = flushed p f ds"
proof -
  have q: "Suc (length ds) div canvas_lines = length ds div canvas_lines"
    using assms by (simp add: length_pending div_Suc mod_Suc)
  have le: "canvas_lines * (length ds div canvas_lines) \<le> length ds"
    by simp
  show "pending (ds @ [l]) = pending ds @ [l]"
    using le by (simp add: pending_def q)
  have "flushed p f (ds @ [l]) =
      map (\<lambda>j. (p, ImageFile f (place (take canvas_lines (drop (canvas_lines * j) (ds @ [l]))))))
        [0..<length ds div canvas_lines]"
    by (simp only: flushed_def length_append_singleton q)
  also have "\<dots> = flushed p f ds"
    unfolding flushed_def by (rule flushed_chunks_append) simp
  finally show "flushed p f (ds @ [l]) = flushed p f ds" .
qed

lemma pending_flushed_flush:
  assumes "Suc (length (pending ds)) = canvas_lines"
  shows "pending (ds @ [l]) = []"
    and "flushed p f (ds @ [l]) = flushed p f ds @ [(p, ImageFile f (place (pending ds @ [l])))]"
proof -
  have q: "Suc (length ds) div canvas_lines = Suc (length ds div canvas_lines)"
    using assms by (simp add: length_pending div_Suc mod_Suc)
  have le: "canvas_lines * (length ds div canvas_lines) \<le> length ds"
    by simp
  have len: "canvas_lines * (length ds div canvas_lines) + length (pending ds) = length ds"
    by (simp add: length_pending)
  then have full: "canvas_lines * Suc (length ds div canvas_lines) = Suc (length ds)"
    using assms by simp
  show "pending (ds @ [l]) = []"
    by (simp add: pending_def q full del: mult_Suc_right)
  have new: "take canvas_lines (drop (canvas_lines * (length ds div canvas_lines)) (ds @ [l]))
      = pending ds @ [l]"
    using le assms by (simp add: pending_def)
  have "flushed p f (ds @ [l]) =
      map (\<lambda>j. (p, ImageFile f (place (take canvas_lines (drop (canvas_lines * j) (ds @ [l]))))))
        [0..<length ds div canvas_lines] @
      [(p, ImageFile f (place (take canvas_lines
          (drop (canvas_lines * (length ds div canvas_lines)) (ds @ [l])))))]"
    by (simp only: flushed_def length_append_singleton q upt_Suc_append [OF le0] map_append
        list.map)
  also have "\<dots> = flushed p f ds @ [(p, ImageFile f (place (pending ds @ [l])))]"
    unfolding flushed_def new
    by (simp only: flushed_chunks_append [OF order_refl])
  finally show "flushed p f (ds @ [l]) =
      flushed p f ds @ [(p, ImageFile f (place (pending ds @ [l])))]" .
qed

lemma canvas_state_keep:
  assumes "canvas_state p f fs0 ds (img, y, fs)" and "\<not> y + 20 > height - 20"
  shows "canvas_state p f fs0 (ds @ [l]) (img @ [((20, y), l)], y + 20, fs)"
proof -
  have "Suc (length (pending ds)) < canvas_lines"
    using assms by (simp add: canvas_state_def canvas_lines_def height_def)
  then show ?thesis
    using assms(1) by (simp add: canvas_state_def place_snoc pending_flushed_keep)
qed

lemma canvas_state_flush:
  assumes "canvas_state p f fs0 ds (img, y, fs)" and "y + 20 > height - 20"
  shows "canvas_state p f fs0 (ds @ [l])
           ([], 20, write_file p (ImageFile f (img @ [((20, y), l)])) fs)"
proof -
  have "length (pending ds) < canvas_lines"
    by (simp add: length_pending canvas_lines_def)
  then have "Suc (length (pending ds)) = canvas_lines"
    using assms by (simp add: canvas_state_def canvas_lines_def height_def)
  then show ?thesis
    using assms(1)
    by (simp add: canvas_state_def place_snoc write_file_def pending_flushed_flush)
      (simp add: place_def)
qed

lemma canvas_state_cursor:
  assumes "canvas_state p f fs0 ds (img, y, fs)"
  shows "\<not> y > height - 20"
proof -
  have "length (pending ds) < canvas_lines"
    by (simp add: length_pending canvas_lines_def)
  then show ?thesis
    using assms by (simp add: canvas_state_def canvas_lines_def height_def)
qed

lemma wrap_words_state:
  assumes "write_error env p = None" and "canvas_state p f fs0 ds (img, y, fs)"
  shows "\<exists>img' y' fs'.
           wrap_words env p f words (cur, img, y, fs)
             = Inr (snd (wrap_pieces env words cur), img', y', fs') \<and>
           canvas_state p f fs0 (ds @ fst (wrap_pieces env words cur)) (img', y', fs')"
  using assms(2)
proof (induction words arbitrary: cur ds img y fs)
  case Nil
  then show ?case by simp
next
  case (Cons word words)
  let ?test = "if cur \<noteq> [] then cur @ '' '' @ word else word"
  show ?case
  proof (cases "getlength env ?test \<le> real (width - 40)")
    case True
    then show ?thesis
      using Cons.IH [OF Cons.prems, where cur = ?test] by (simp add: Let_def)
  next
    case False
    note long = False
    show ?thesis
    proof (cases "y + 20 > height - 20")
      case True
      have "canvas_state p f fs0 (ds @ [cur])
          ([], 20, write_file p (ImageFile f (img @ [((20, y), cur)])) fs)"
        using canvas_state_flush [OF Cons.prems True] .
      from Cons.IH [OF this, where cur = word] show ?thesis
        using long True assms(1)
        by (auto simp: Let_def save_image_def split: prod.splits)
    next
      case False
      have "canvas_state p f fs0 (ds @ [cur]) (img @ [((20, y), cur)], y + 20, fs)"
        using canvas_state_keep [OF Cons.prems False] .
      from Cons.IH [OF this, where cur = word] show ?thesis
        using long False
        by (auto simp: Let_def split: prod.splits)
    qed
  qed
qed

text \<open>One turn of the loop over the lines: the line is drawn, then the page check is made.\<close>

lemma draw_lines_turn:
  assumes "write_error env p = None" and "canvas_state p f fs0 ds st"
  shows "\<exists>st'. draw_lines env p f (line # lines) st = draw_lines env p f lines st' \<and>
           canvas_state p f fs0 (ds @ line_pieces env line) st'"
proof -
  obtain img y fs where st: "st = (img, y, fs)"
    by (metis surj_pair)
  note inv = assms(2) [unfolded st]
  show ?thesis
  proof (cases "getlength env line > real (width - 40)")
    case False
    show ?thesis
    proof (cases "y + 20 > height - 20")
      case True
      then show ?thesis
        using canvas_state_flush [OF inv True, of line] False assms(1)
        by (auto simp: st draw_line_def line_pieces_def save_image_def)
    next
      case small: False
      then show ?thesis
        using canvas_state_keep [OF inv small, of line] False
        by (auto simp: st draw_line_def line_pieces_def)
    qed
  next
    case True
    obtain front remainder where wp: "wrap_pieces env (split_ws line) [] = (front, remainder)"
      by (metis surj_pair)
    obtain img1 y1 fs1 where
      ww: "wrap_words env p f (split_ws line) ([], img, y, fs) = Inr (remainder, img1, y1, fs1)"
      and inv1: "canvas_state p f fs0 (ds @ front) (img1, y1, fs1)"
      using wrap_words_state [OF assms(1) inv, where words = "split_ws line" and cur = "[]"] wp by auto
    show ?thesis
    proof (cases "remainder = []")
      case True
      then show ?thesis
        using ww inv1 wp canvas_state_cursor [OF inv1] \<open>getlength env line > real (width - 40)\<close>
        by (auto simp: st draw_line_def line_pieces_def)
    next
      case False
      note some = False
      show ?thesis
      proof (cases "y1 + 20 > height - 20")
        case True
        then show ?thesis
          using canvas_state_flush [OF inv1 True, of remainder] ww wp some assms(1)
            \<open>getlength env line > real (width - 40)\<close>
          by (auto simp: st draw_line_def line_pieces_def save_image_def)
      next
        case small: False
        then show ?thesis
          using canvas_state_keep [OF inv1 small, of remainder] ww wp some
            \<open>getlength env line > real (width - 40)\<close>
          by (auto simp: st draw_line_def line_pieces_def)
      qed
    qed
  qed
qed

lemma draw_lines_state:
  assumes "write_error env p = None" and "canvas_state p f fs0 ds st"
  shows "\<exists>st'. draw_lines env p f lines st = Inr st' \<and>
           canvas_state p f fs0 (ds @ concat (map (line_pieces env) lines)) st'"
  using assms(2)
proof (induction lines arbitrary: ds st)
  case Nil
  then show ?case by simp
next
  case (Cons line lines)
  obtain st1 where turn: "draw_lines env p f (line # lines) st = draw_lines env p f lines st1"
    and inv1: "canvas_state p f fs0 (ds @ line_pieces env line) st1"
    using draw_lines_turn [OF assms(1) Cons.prems] by blast
  from Cons.IH [OF inv1] show ?case
    by (simp only: turn) simp
qed

lemma canvas_state_start: "canvas_state p f fs0 [] ([], 20, fs0)"
  by (simp add: canvas_state_def pending_def flushed_def place_def)

text \<open>
  Claim C3. Take the lines that the renderer draws for the text,
  \<open>drawn_lines env text\<close>. Whenever \<^verbatim>\<open>create_image_file\<close> can write to the
  output path, it returns that path; every write that it makes goes to that one path:
  first each full canvas of 69 lines, in order, then the final canvas; and the file stored
  there afterwards is the final canvas, which holds the lines after the last full canvas
  and nothing else. The lines of every flushed canvas are overwritten and lost.
\<close>

theorem create_image_file_keeps_last_canvas_only:
  assumes "write_error env output_path = None"
  shows "\<exists>fs'. create_image_file env text output_path format fs = (Inr output_path, fs') \<and>
           writes fs' =
             writes fs @ flushed output_path format (drawn_lines env text) @
               [(output_path, ImageFile format (place (pending (drawn_lines env text))))] \<and>
           (\<forall>w \<in> set (flushed output_path format (drawn_lines env text)). fst w = output_path) \<and>
           files fs' =
             (files fs)(output_path \<mapsto>
                ImageFile format (place (pending (drawn_lines env text))))"
proof -
  obtain img y fs1
    where loop: "draw_lines env output_path format (split_on NL text) ([], 20, fs) = Inr (img, y, fs1)"
      and inv: "canvas_state output_path format fs (drawn_lines env text) (img, y, fs1)"
    using draw_lines_state [OF assms canvas_state_start [of output_path format fs],
        where lines = "split_on NL text"]
    by (auto simp: drawn_lines_def)
  let ?fs' = "write_file output_path (ImageFile format img) fs1"
  have "create_image_file env text output_path format fs = (Inr output_path, ?fs')"
    using loop assms by (simp add: create_image_file_def save_image_def)
  moreover have "writes ?fs' =
      writes fs @ flushed output_path format (drawn_lines env text) @
        [(output_path, ImageFile format (place (pending (drawn_lines env text))))]"
    using inv by (simp add: canvas_state_def write_file_def)
  moreover have "files ?fs' =
      (files fs)(output_path \<mapsto> ImageFile format (place (pending (drawn_lines env text))))"
    using inv by (simp add: canvas_state_def write_file_def)
  moreover have "\<forall>w \<in> set (flushed output_path format (drawn_lines env text)). fst w = output_path"
    by (auto simp: flushed_def)
  ultimately show ?thesis
    by blast
qed

lemma concat_replicate_single: "concat (replicate n [x]) = replicate n x"
  by (induction n) simp_all

lemma place_replicate:
  "place (replicate n x) = map (\<lambda>k. ((20, 20 + 20 * k), x)) [0..<n]"
proof (induction n)
  case 0
  show ?case by (simp add: place_def)
next
  case (Suc n)
  have "place (replicate (Suc n) x) = place (replicate n x @ [x])"
    by (simp add: replicate_append_same)
  also have "\<dots> = map (\<lambda>k. ((20, 20 + 20 * k), x)) [0..<Suc n]"
    by (simp add: place_snoc Suc.IH)
  finally show ?case .
qed

theorem create_image_file_keeps_last_canvas_only_witness:
  "write_error plain_env ''out.png'' = None \<and>
   (\<exists>fs'. create_image_file plain_env seventy_lines ''out.png'' ''PNG'' empty_fs
             = (Inr ''out.png'', fs') \<and>
      writes fs' =
        [(''out.png'', ImageFile ''PNG'' (map (\<lambda>k. ((20, 20 + 20 * k), ''a'')) [0..<69])),
         (''out.png'', ImageFile ''PNG'' [((20, 20), ''b'')])] \<and>
      files fs' ''out.png'' = Some (ImageFile ''PNG'' [((20, 20), ''b'')]))"
proof -
  have we: "write_error plain_env ''out.png'' = None"
    by (simp add: plain_env_def)
  have sl: "split_on NL seventy_lines = replicate 68 ''a'' @ [''a'', ''b'']"
    by code_simp
  have r: "''a'' # replicate 68 ''a'' = replicate 69 ''a''"
    using replicate_Suc [of 68 "''a''"] by (simp del: replicate_Suc)
  have dl: "drawn_lines plain_env seventy_lines = replicate 69 ''a'' @ [''b'']"
    by (simp add: drawn_lines_def sl line_pieces_def plain_env_def width_def
        concat_replicate_single replicate_append_same r)
  have pd: "pending (replicate 69 ''a'' @ [''b'']) = [''b'']"
    by (simp add: pending_def canvas_lines_def)
  have fl: "flushed ''out.png'' ''PNG'' (replicate 69 ''a'' @ [''b'']) =
      [(''out.png'', ImageFile ''PNG'' (map (\<lambda>k. ((20, 20 + 20 * k), ''a'')) [0..<69]))]"
    by (simp add: flushed_def canvas_lines_def place_replicate)
  have pl: "place [''b''] = [((20, 20), ''b'')]"
    by (simp add: place_def)
  from create_image_file_keeps_last_canvas_only [OF we, of seventy_lines "''PNG''" empty_fs]
  show ?thesis
    unfolding dl pd fl pl by (auto simp: we empty_fs_def)
qed

subsection \<open>The OCR stage\<close>

lemma find_replace_row:
  assumes "find (\<lambda>d. doc_id d = i) xs = Some x" and "doc_id y = i"
  shows "find (\<lambda>d. doc_id d = i) (map (\<lambda>d. if doc_id d = i then y else d) xs) = Some y"
  using assms by (induction xs) (auto split: if_splits)

lemma find_doc_id:
  assumes "find (\<lambda>d. doc_id d = i) xs = Some x"
  shows "doc_id x = i"
  using assms by (induction xs) (auto split: if_splits)

lemma replace_row_twice:
  assumes "doc_id y = i"
  shows "map ((\<lambda>d. if doc_id d = i then z else d) \<circ> (\<lambda>d. if doc_id d = i then y else d)) xs
     = map (\<lambda>d. if doc_id d = i then z else d) xs"
  using assms by (induction xs) auto

lemma no_row_filter:
  assumes "find (\<lambda>r. ocr_document r = i) rs = None"
  shows "filter (\<lambda>r. ocr_document r = i) rs = []"
  using assms by (induction rs) (auto split: if_splits)

lemma no_row_Ball:
  assumes "find (\<lambda>r. ocr_document r = i) rs = None"
  shows "\<not> (\<exists>r \<in> set rs. ocr_document r = i)"
  using assms by (induction rs) (auto split: if_splits)

text \<open>What the handler does once it reaches the \<^verbatim>\<open>try\<close>, by the outcome of the OCR call.\<close>

lemma ocr_view_reaches_try:
  assumes "find (\<lambda>d. doc_id d = document_id) (document_rows st) = Some document"
    and "find (\<lambda>r. ocr_document r = document_id) (ocr_result_rows st) = None"
    and "req_method request = ''POST''"
    and "OCRLanguageForm_clean request = Some language"
  shows "ocr_view env media_root request document_id st =
           ocr_view_process env media_root document language st"
  using assms find_doc_id [OF assms(1)] by (simp add: ocr_view_def)

lemma ocr_view_process_failure:
  assumes "perform_ocr env (path_join media_root (doc_file document)) language = Inl e"
  shows "ocr_view_process env media_root document language st =
           (Render ''ocr'',
            add_message MsgError (''OCR processing failed: '' @ exn_str e)
              (st\<lparr>document_rows :=
                    map (\<lambda>d. if doc_id d = doc_id document
                              then document\<lparr>doc_status := ''failed''\<rparr> else d)
                      (document_rows st)\<rparr>))"
  using assms
  by (simp add: ocr_view_process_def ocr_view_failed_def save_document_def Let_def
      replace_row_twice)

lemma ocr_view_process_success:
  assumes "perform_ocr env (path_join media_root (doc_file document)) language = Inr text"
    and "find (\<lambda>r. ocr_document r = doc_id document) (ocr_result_rows st) = None"
  shows "ocr_view_process env media_root document language st =
           (Redirect ''translator:translate'' (Some (next_ocr_result_id st)),
            add_message MsgSuccess ''OCR processing completed successfully!''
              (st\<lparr>document_rows :=
                    map (\<lambda>d. if doc_id d = doc_id document
                              then document\<lparr>doc_status := ''completed''\<rparr> else d)
                      (document_rows st),
                  ocr_result_rows := ocr_result_rows st @
                    [\<lparr>ocr_id = next_ocr_result_id st, ocr_document = doc_id document,
                      ocr_text = text, ocr_language = language\<rparr>],
                  next_ocr_result_id := next_ocr_result_id st + 1\<rparr>))"
  using assms(1) no_row_Ball [OF assms(2)]
  by (cases st)
    (simp add: ocr_view_process_def create_ocr_result_def save_document_def Let_def
      replace_row_twice add_message_def)

text \<open>
  Claim C5. A POST with a valid form for a document that has no OCR result runs the OCR
  call. When the call succeeds, exactly one OCRResult row exists for the document
  afterwards and the document's status is \<^verbatim>\<open>completed\<close>; when it raises, no such row
  exists, the status is \<^verbatim>\<open>failed\<close>, and the tables and the stored files are as
  before but for that status.
\<close>

theorem ocr_view_rows_and_status:
  assumes "find (\<lambda>d. doc_id d = document_id) (document_rows st) = Some document"
    and "find (\<lambda>r. ocr_document r = document_id) (ocr_result_rows st) = None"
    and "req_method request = ''POST''"
    and "OCRLanguageForm_clean request = Some language"
    and "ocr_view env media_root request document_id st = (resp, st')"
  shows "case perform_ocr env (path_join media_root (doc_file document)) language of
           Inr text \<Rightarrow>
             length (filter (\<lambda>r. ocr_document r = document_id) (ocr_result_rows st')) = 1 \<and>
             find (\<lambda>d. doc_id d = document_id) (document_rows st')
               = Some (document\<lparr>doc_status := ''completed''\<rparr>)
         | Inl e \<Rightarrow>
             length (filter (\<lambda>r. ocr_document r = document_id) (ocr_result_rows st')) = 0 \<and>
             find (\<lambda>d. doc_id d = document_id) (document_rows st')
               = Some (document\<lparr>doc_status := ''failed''\<rparr>) \<and>
             document_rows st' =
               map (\<lambda>d. if doc_id d = document_id then document\<lparr>doc_status := ''failed''\<rparr> else d)
                 (document_rows st) \<and>
             ocr_result_rows st' = ocr_result_rows st \<and>
             translation_rows st' = translation_rows st \<and>
             output_file_rows st' = output_file_rows st \<and>
             storage st' = storage st"
proof -
  have id: "doc_id document = document_id"
    using find_doc_id [OF assms(1)] .
  have run: "ocr_view_process env media_root document language st = (resp, st')"
    using ocr_view_reaches_try [OF assms(1-4)] assms(5) by simp
  have none: "find (\<lambda>r. ocr_document r = doc_id document) (ocr_result_rows st) = None"
    using assms(2) id by simp
  show ?thesis
  proof (cases "perform_ocr env (path_join media_root (doc_file document)) language")
    case (Inl e)
    have post: "st' = add_message MsgError (''OCR processing failed: '' @ exn_str e)
        (st\<lparr>document_rows :=
              map (\<lambda>d. if doc_id d = doc_id document
                        then document\<lparr>doc_status := ''failed''\<rparr> else d)
                (document_rows st)\<rparr>)"
      using ocr_view_process_failure [OF Inl, of st] run by simp
    have "find (\<lambda>d. doc_id d = document_id) (document_rows st')
        = Some (document\<lparr>doc_status := ''failed''\<rparr>)"
      using find_replace_row [OF assms(1), of "document\<lparr>doc_status := ''failed''\<rparr>"] id
      by (simp add: post add_message_def)
    then show ?thesis
      using Inl id no_row_filter [OF assms(2)] by (simp add: post add_message_def)
  next
    case (Inr extracted)
    have post: "st' = add_message MsgSuccess ''OCR processing completed successfully!''
        (st\<lparr>document_rows :=
              map (\<lambda>d. if doc_id d = doc_id document
                        then document\<lparr>doc_status := ''completed''\<rparr> else d)
                (document_rows st),
            ocr_result_rows := ocr_result_rows st @
              [\<lparr>ocr_id = next_ocr_result_id st, ocr_document = doc_id document,
                ocr_text = extracted, ocr_language = language\<rparr>],
            next_ocr_result_id := next_ocr_result_id st + 1\<rparr>)"
      using ocr_view_process_success [OF Inr none] run by simp
    have "find (\<lambda>d. doc_id d = document_id) (document_rows st')
        = Some (document\<lparr>doc_status := ''completed''\<rparr>)"
      using find_replace_row [OF assms(1), of "document\<lparr>doc_status := ''completed''\<rparr>"] id
      by (simp add: post add_message_def)
    then show ?thesis
      using Inr id no_row_filter [OF assms(2)] by (simp add: post add_message_def)
  qed
qed

text \<open>
  Claim C10, as the code has it. For a POST with a valid form, a handler that reaches
  the \<^verbatim>\<open>try\<close> (the document has no OCR result) leaves the status
  \<^verbatim>\<open>completed\<close> after a successful run and \<^verbatim>\<open>failed\<close> after any exception,
  never \<^verbatim>\<open>processing\<close>; a handler that finds an OCR result redirects and leaves the
  status as it found it.
\<close>

theorem ocr_view_status_on_return:
  assumes "find (\<lambda>d. doc_id d = document_id) (document_rows st) = Some document"
    and "req_method request = ''POST''"
    and "OCRLanguageForm_clean request = Some language"
  shows "\<exists>d. find (\<lambda>d. doc_id d = document_id)
               (document_rows (snd (ocr_view env media_root request document_id st))) = Some d \<and>
             (case find (\<lambda>r. ocr_document r = document_id) (ocr_result_rows st) of
                None \<Rightarrow>
                  doc_status d =
                    (case perform_ocr env (path_join media_root (doc_file document)) language of
                       Inr extracted \<Rightarrow> ''completed'' | Inl e \<Rightarrow> ''failed'') \<and>
                  doc_status d \<noteq> ''processing''
              | Some existing \<Rightarrow> doc_status d = doc_status document)"
proof (cases "find (\<lambda>r. ocr_document r = document_id) (ocr_result_rows st)")
  case None
  have id: "doc_id document = document_id"
    using find_doc_id [OF assms(1)] .
  have none: "find (\<lambda>r. ocr_document r = doc_id document) (ocr_result_rows st) = None"
    using None id by simp
  have run: "ocr_view env media_root request document_id st =
      ocr_view_process env media_root document language st"
    using ocr_view_reaches_try [OF assms(1) None assms(2,3)] .
  show ?thesis
  proof (cases "perform_ocr env (path_join media_root (doc_file document)) language")
    case (Inl e)
    show ?thesis
      using find_replace_row [OF assms(1), of "document\<lparr>doc_status := ''failed''\<rparr>"] id Inl None
      by (simp add: run ocr_view_process_failure [OF Inl] add_message_def)
  next
    case (Inr extracted)
    show ?thesis
      using find_replace_row [OF assms(1), of "document\<lparr>doc_status := ''completed''\<rparr>"] id Inr
        None
      by (simp add: run ocr_view_process_success [OF Inr none] add_message_def)
  qed
next
  case (Some existing)
  then have "ocr_view env media_root request document_id st =
      (Redirect ''translator:translate'' (Some (ocr_id existing)),
       add_message MsgInfo ''OCR has already been performed on this document.'' st)"
    using assms(1) find_doc_id [OF assms(1)] by (simp add: ocr_view_def)
  then show ?thesis
    using assms(1) Some by (simp add: add_message_def)
qed

theorem ocr_view_rows_and_status_witness:
  "length (filter (\<lambda>r. ocr_document r = 1)
     (ocr_result_rows (snd (ocr_view good_ocr_env ''/media'' ocr_post 1 scan_state)))) = 1 \<and>
   find (\<lambda>d. doc_id d = 1)
     (document_rows (snd (ocr_view good_ocr_env ''/media'' ocr_post 1 scan_state)))
     = Some (scan_doc\<lparr>doc_status := ''completed''\<rparr>) \<and>
   length (filter (\<lambda>r. ocr_document r = 1)
     (ocr_result_rows (snd (ocr_view bad_ocr_env ''/media'' ocr_post 1 scan_state)))) = 0 \<and>
   find (\<lambda>d. doc_id d = 1)
     (document_rows (snd (ocr_view bad_ocr_env ''/media'' ocr_post 1 scan_state)))
     = Some (scan_doc\<lparr>doc_status := ''failed''\<rparr>)"
proof -
  have a1: "find (\<lambda>d. doc_id d = 1) (document_rows scan_state) = Some scan_doc"
    by (simp add: scan_state_def scan_doc_def)
  have a2: "find (\<lambda>r. ocr_document r = 1) (ocr_result_rows scan_state) = None"
    by (simp add: scan_state_def)
  have a3: "req_method ocr_post = ''POST''"
    by (simp add: ocr_post_def)
  have a4: "OCRLanguageForm_clean ocr_post = Some ''eng''"
    by code_simp
  have good: "perform_ocr good_ocr_env (path_join ''/media'' (doc_file scan_doc)) ''eng'' = Inr ''hello''"
    by (simp add: perform_ocr_def scan_doc_def path_join_def splitext_ext_def lower_def
        lower_char_def ocr_image_def good_ocr_env_def)
  have bad: "perform_ocr bad_ocr_env (path_join ''/media'' (doc_file scan_doc)) ''eng''
      = Inl (Exn ExceptionC ''Error performing OCR on image: cannot identify image file'')"
    by (simp add: perform_ocr_def scan_doc_def path_join_def splitext_ext_def lower_def
        lower_char_def ocr_image_def bad_ocr_env_def)
  show ?thesis
    using ocr_view_rows_and_status [OF a1 a2 a3 a4, of good_ocr_env "''/media''"
        "fst (ocr_view good_ocr_env ''/media'' ocr_post 1 scan_state)"
        "snd (ocr_view good_ocr_env ''/media'' ocr_post 1 scan_state)"]
      ocr_view_rows_and_status [OF a1 a2 a3 a4, of bad_ocr_env "''/media''"
        "fst (ocr_view bad_ocr_env ''/media'' ocr_post 1 scan_state)"
        "snd (ocr_view bad_ocr_env ''/media'' ocr_post 1 scan_state)"]
      good bad
    by (simp add: scan_state_def scan_doc_def)
qed

theorem ocr_view_status_on_return_witness:
  "\<exists>d. find (\<lambda>d. doc_id d = 1)
         (document_rows (snd (ocr_view bad_ocr_env ''/media'' ocr_post 1 scan_state))) = Some d \<and>
       doc_status d = ''failed''"
proof -
  have a1: "find (\<lambda>d. doc_id d = 1) (document_rows scan_state) = Some scan_doc"
    by (simp add: scan_state_def scan_doc_def)
  have a2: "find (\<lambda>r. ocr_document r = 1) (ocr_result_rows scan_state) = None"
    by (simp add: scan_state_def)
  have a3: "req_method ocr_post = ''POST''"
    by (simp add: ocr_post_def)
  have a4: "OCRLanguageForm_clean ocr_post = Some ''eng''"
    by code_simp
  have ocr: "perform_ocr bad_ocr_env (path_join ''/media'' (doc_file scan_doc)) ''eng''
      = Inl (Exn ExceptionC ''Error performing OCR on image: cannot identify image file'')"
    by (simp add: perform_ocr_def scan_doc_def path_join_def splitext_ext_def lower_def
        lower_char_def ocr_image_def bad_ocr_env_def)
  show ?thesis
    using ocr_view_status_on_return [OF a1 a3 a4, of bad_ocr_env "''/media''"] a2 ocr
    by auto
qed

text \<open>
  The claim as it is worded fails for a document that has an OCR result and the status
  \<^verbatim>\<open>processing\<close>: the handler of a POST with a valid form returns, and the status is
  still \<^verbatim>\<open>processing\<close>.
\<close>

theorem ocr_view_leaves_processing_counterexample:
  "OCRLanguageForm_clean ocr_post = Some ''eng'' \<and>
   ocr_view good_ocr_env ''/media'' ocr_post 1 stuck_state =
     (Redirect ''translator:translate'' (Some 1),
      add_message MsgInfo ''OCR has already been performed on this document.'' stuck_state) \<and>
   map doc_status (document_rows (snd (ocr_view good_ocr_env ''/media'' ocr_post 1 stuck_state)))
     = [''processing'']"
proof -
  have form: "OCRLanguageForm_clean ocr_post = Some ''eng''"
    by code_simp
  have run: "ocr_view good_ocr_env ''/media'' ocr_post 1 stuck_state =
     (Redirect ''translator:translate'' (Some 1),
      add_message MsgInfo ''OCR has already been performed on this document.'' stuck_state)"
    by (simp add: ocr_view_def stuck_state_def scan_doc_def ocr_row_def)
  have "map doc_status (document_rows stuck_state) = [''processing'']"
    by (simp add: stuck_state_def)
  then show ?thesis
    using form run by (simp add: add_message_def)
qed

subsection \<open>The translate stage\<close>





subsection \<open>Upload\<close>

lemma supported_extension_named:
  assumes "lower (upload_extension name)
             \<in> set [''pdf'', ''png'', ''jpg'', ''jpeg'', ''tiff'', ''bmp'', ''gif'']"
  shows "name \<noteq> []"
  using assms by (auto simp: upload_extension_def split_on_def lower_def)

lemma upload_view_accepts:
  assumes "req_method request = ''POST''"
    and "req_FILES request ''file'' = Some (name, content)"
    and "lower (upload_extension name)
           \<in> set [''pdf'', ''png'', ''jpg'', ''jpeg'', ''tiff'', ''bmp'', ''gif'']"
    and "length name \<le> 100" and "content \<noteq> []"
    and "CharField_clean False (Some 255) (req_POST request ''title'') = Some title"
  shows "document_rows (snd (upload_view media_root uuid request st)) =
           document_rows st @
             [\<lparr>doc_id = next_document_id st, doc_title = title,
               doc_file = get_file_path uuid name,
               doc_file_type = lower (upload_extension name),
               doc_status = ''pending''\<rparr>]"
  using assms supported_extension_named [OF assms(3)]
  by (simp add: upload_view_def DocumentUploadForm_clean_def FileField_clean_def clean_file_def
      DocumentUploadForm_save_def new_document_def add_message_def upload_extension_def Let_def)

lemma upload_view_rejects:
  assumes "lower (upload_extension name)
             \<notin> set [''pdf'', ''png'', ''jpg'', ''jpeg'', ''tiff'', ''bmp'', ''gif'']"
    and "req_FILES request ''file'' = Some (name, content)"
  shows "upload_view media_root uuid request st = (Render ''upload'', st)"
  using assms
  by (simp add: upload_view_def DocumentUploadForm_clean_def FileField_clean_def clean_file_def
      upload_extension_def Let_def)

text \<open>
  Claim C8, as the code has it. The extension is the text after the last dot of the file
  name, the whole name when it has no dot. For an upload that the form fields accept (a
  file that is not empty, with a name of at most 100 characters, and a title of at most
  255 characters once stripped) and whose extension is, without regard to case, one of
  the seven supported ones, a POST to \<^verbatim>\<open>upload\<close> adds one Document row, whose file
  type is the extension in lower case and whose status is \<^verbatim>\<open>pending\<close>; for a file
  with any other extension the form is rejected and the state, with its Document rows,
  is left as it was.
\<close>

theorem upload_view_file_type:
  assumes "req_method request = ''POST''"
    and "req_FILES request ''file'' = Some (name, content)"
  shows "(lower (upload_extension name)
            \<notin> set [''pdf'', ''png'', ''jpg'', ''jpeg'', ''tiff'', ''bmp'', ''gif''] \<longrightarrow>
          upload_view media_root uuid request st = (Render ''upload'', st)) \<and>
         (lower (upload_extension name)
            \<in> set [''pdf'', ''png'', ''jpg'', ''jpeg'', ''tiff'', ''bmp'', ''gif''] \<and>
          length name \<le> 100 \<and> content \<noteq> [] \<and>
          CharField_clean False (Some 255) (req_POST request ''title'') = Some title \<longrightarrow>
          (\<exists>d. document_rows (snd (upload_view media_root uuid request st))
                  = document_rows st @ [d] \<and>
               doc_file_type d = lower (upload_extension name) \<and>
               doc_status d = ''pending'' \<and> doc_title d = title))"
proof (intro conjI impI)
  assume "lower (upload_extension name)
            \<notin> set [''pdf'', ''png'', ''jpg'', ''jpeg'', ''tiff'', ''bmp'', ''gif'']"
  then show "upload_view media_root uuid request st = (Render ''upload'', st)"
    using upload_view_rejects assms(2) by blast
next
  assume ok: "lower (upload_extension name)
            \<in> set [''pdf'', ''png'', ''jpg'', ''jpeg'', ''tiff'', ''bmp'', ''gif''] \<and>
          length name \<le> 100 \<and> content \<noteq> [] \<and>
          CharField_clean False (Some 255) (req_POST request ''title'') = Some title"
  show "\<exists>d. document_rows (snd (upload_view media_root uuid request st))
                  = document_rows st @ [d] \<and>
               doc_file_type d = lower (upload_extension name) \<and>
               doc_status d = ''pending'' \<and> doc_title d = title"
    using upload_view_accepts [OF assms, of title media_root uuid st] ok by simp
qed

lemma upload_extension_examples:
  "lower (upload_extension ''Scan.PDF'') = ''pdf''"
  "lower (upload_extension ''notes.exe'') = ''exe''"
  "lower (upload_extension ''pdf'') = ''pdf''"
  by (simp_all add: upload_extension_def split_on_def lower_def lower_char_def)

theorem upload_view_file_type_witness:
  "(\<exists>d. document_rows (snd (upload_view ''/media'' ''u1'' (upload_post ''Scan.PDF'') fresh_state))
           = [d] \<and> doc_file_type d = ''pdf'' \<and> doc_status d = ''pending'' \<and>
         doc_title d = ''Scan'') \<and>
   upload_view ''/media'' ''u1'' (upload_post ''notes.exe'') fresh_state
     = (Render ''upload'', fresh_state)"
proof -
  have post: "req_method (upload_post n) = ''POST''"
    and upl: "req_FILES (upload_post n) ''file'' = Some (n, ''bytes'')" for n
    by (simp_all add: upload_post_def)
  have title: "CharField_clean False (Some 255) (req_POST (upload_post ''Scan.PDF'') ''title'')
      = Some ''Scan''"
    by code_simp
  have rows: "document_rows fresh_state = []"
    by (simp add: fresh_state_def)
  show ?thesis
    using upload_view_file_type [OF post upl, of "''Scan.PDF''" "''/media''" "''u1''" fresh_state
        "''Scan''"]
      upload_view_file_type [OF post upl, of "''notes.exe''" "''/media''" "''u1''" fresh_state]
      title
    by (simp add: upload_extension_examples rows)
qed

text \<open>
  The claim as it is worded fails in both halves. An empty file named
  \<^verbatim>\<open>Scan.PDF\<close> has a supported extension, and the upload creates no Document. A file
  named \<^verbatim>\<open>pdf\<close> has no extension in the sense in which \<^verbatim>\<open>perform_ocr\<close>
  takes it (\<^verbatim>\<open>os.path.splitext\<close>), and the upload is accepted with the file type
  \<^verbatim>\<open>pdf\<close>.
\<close>

theorem upload_view_counterexample:
  "lower (upload_extension ''Scan.PDF'') = ''pdf'' \<and>
   upload_view ''/media'' ''u1'' (empty_upload_post ''Scan.PDF'') fresh_state
     = (Render ''upload'', fresh_state) \<and>
   splitext_ext ''pdf'' = [] \<and>
   map doc_file_type
     (document_rows (snd (upload_view ''/media'' ''u1'' (upload_post ''pdf'') fresh_state)))
     = [''pdf'']"
proof -
  have empty: "upload_view ''/media'' ''u1'' (empty_upload_post ''Scan.PDF'') fresh_state
      = (Render ''upload'', fresh_state)"
    by (simp add: upload_view_def empty_upload_post_def DocumentUploadForm_clean_def
        FileField_clean_def)
  have post: "req_method (upload_post ''pdf'') = ''POST''"
    and upl: "req_FILES (upload_post ''pdf'') ''file'' = Some (''pdf'', ''bytes'')"
    by (simp_all add: upload_post_def)
  have title: "CharField_clean False (Some 255) (req_POST (upload_post ''pdf'') ''title'')
      = Some ''Scan''"
    by code_simp
  have dotless: "map doc_file_type
     (document_rows (snd (upload_view ''/media'' ''u1'' (upload_post ''pdf'') fresh_state)))
     = [''pdf'']"
    using upload_view_accepts [OF post upl _ _ _ title, of "''/media''" "''u1''" fresh_state]
    by (simp add: upload_extension_examples fresh_state_def)
  have "splitext_ext ''pdf'' = []"
    by (simp add: splitext_ext_def)
  then show ?thesis
    using empty dotless by (simp add: upload_extension_examples)
qed

subsection \<open>The pdf chain\<close>



lemma pdf_no_straddle:
  assumes "prefix ''.pdf'' ((c # cs) @ ''.pdf'')"
  shows "prefix ''.pdf'' (c # cs)"
proof (cases cs)
  case Nil
  with assms show ?thesis by simp
next
  case (Cons c1 cs1)
  show ?thesis
  proof (cases cs1)
    case Nil
    with assms Cons show ?thesis by simp
  next
    case (Cons c2 cs2)
    note cs1 = Cons
    show ?thesis
    proof (cases cs2)
      case Nil
      with assms \<open>cs = c1 # cs1\<close> cs1 show ?thesis by simp
    next
      case (Cons c3 cs3)
      with assms \<open>cs = c1 # cs1\<close> cs1 show ?thesis by simp
    qed
  qed
qed

lemma replace_pdf_suffix_only:
  assumes "\<not> occurs_in ''.pdf'' stem"
  shows "replace_str ''.pdf'' ''.txt'' (stem @ ''.pdf'') = stem @ ''.txt''"
  using assms
proof (induction stem)
  case Nil
  then show ?case by simp
next
  case (Cons c cs)
  from Cons.prems have np: "\<not> prefix ''.pdf'' (c # cs)" and no: "\<not> occurs_in ''.pdf'' cs"
    by simp_all
  from np pdf_no_straddle have "\<not> prefix ''.pdf'' ((c # cs) @ ''.pdf'')"
    by blast
  then have "prefix ''.pdf'' (c # cs @ ''.pdf'') = False"
    by simp
  then have "replace_str ''.pdf'' ''.txt'' (c # cs @ ''.pdf'')
      = c # replace_str ''.pdf'' ''.txt'' (cs @ ''.pdf'')"
    by (simp only: replace_str.simps list.distinct if_False)
  then show ?case
    using Cons.IH [OF no] by (simp only: append_Cons)
qed

lemma replace_is_suffix_rewrite:
  assumes "\<not> occurs_in ''.pdf'' stem"
  shows "replace_str ''.pdf'' ''.txt'' (stem @ ''.pdf'') = rewrite_pdf_suffix (stem @ ''.pdf'')"
  using replace_pdf_suffix_only [OF assms] by (simp add: rewrite_pdf_suffix_def suffix_def)


lemma replace_dotted_path:
  "replace_str ''.pdf'' ''.txt'' ''/srv/my.pdfs/outputs/u1.pdf'' = ''/srv/my.txts/outputs/u1.txt''"
  by simp

text \<open>
  Claim C4 at the media root \<^verbatim>\<open>/srv/my.pdfs\<close>. The two library tiers raise and the
  conversion tool is unavailable. The claim has \<^verbatim>\<open>create_pdf_file\<close> write the text
  to \<^verbatim>\<open>/srv/my.pdfs/outputs/u1.txt\<close> and return that path. The code replaces
  \<^verbatim>\<open>.pdf\<close> in the directory name as well, copies to
  \<^verbatim>\<open>/srv/my.txts/outputs/u1.txt\<close>, a directory that does not exist, and raises; no
  text file is written at the path with the suffix rewritten.
\<close>

theorem create_pdf_file_raises_for_dotted_root:
  "rewrite_pdf_suffix ''/srv/my.pdfs/outputs/u1.pdf'' = ''/srv/my.pdfs/outputs/u1.txt'' \<and>
   replace_str ''.pdf'' ''.txt'' ''/srv/my.pdfs/outputs/u1.pdf'' = ''/srv/my.txts/outputs/u1.txt'' \<and>
   fst (create_pdf_file dotted_root_env ''bonjour'' ''/srv/my.pdfs/outputs/u1.pdf'' empty_fs) =
     Inl (Exn ExceptionC
       (''Error creating PDF file: No module named fpdf -> cannot register font -> '' @
        ''No such file or directory'')) \<and>
   files (snd (create_pdf_file dotted_root_env ''bonjour'' ''/srv/my.pdfs/outputs/u1.pdf'' empty_fs))
     ''/srv/my.pdfs/outputs/u1.txt'' = None"
proof -
  have suf: "rewrite_pdf_suffix ''/srv/my.pdfs/outputs/u1.pdf'' = ''/srv/my.pdfs/outputs/u1.txt''"
    by (simp add: rewrite_pdf_suffix_def suffix_def)
  have run: "create_pdf_file dotted_root_env ''bonjour'' ''/srv/my.pdfs/outputs/u1.pdf'' empty_fs =
      (Inl (Exn ExceptionC
         (''Error creating PDF file: No module named fpdf -> cannot register font -> '' @
          ''No such file or directory'')),
       write_file ''/tmp/t.html'' (HtmlFile ''bonjour'')
         (write_file ''/tmp/t.txt'' (TextFile ''bonjour'') empty_fs))"
    by (simp add: create_pdf_file_def pdf_tier3_def pdf_inner_handler_def pdf_degrade_def
        pdf_final_error_def dotted_root_env_def missing_tool_env_def write_file_def
        empty_fs_def Let_def)
  show ?thesis
    unfolding run by (simp add: suf replace_dotted_path write_file_def empty_fs_def)
qed

subsection \<open>The render stage\<close>

lemma find_tr_id:
  assumes "find (\<lambda>t. tr_id t = i) xs = Some x"
  shows "tr_id x = i"
  using assms by (induction xs) (auto split: if_splits)

lemma find_replace_translation:
  assumes "find (\<lambda>t. tr_id t = i) xs = Some x" and "tr_id y = i"
  shows "find (\<lambda>t. tr_id t = i) (map (\<lambda>t. if tr_id t = i then y else t) xs) = Some y"
  using assms by (induction xs) (auto split: if_splits)

lemma output_format_view_reaches_try:
  assumes "find (\<lambda>t. tr_id t = translation_id) (translation_rows st) = Some translation"
    and "req_method request = ''POST''"
    and "OutputFormatForm_clean request = Some (output_format, edited_text)"
  shows "output_format_view env media_root uuid request translation_id st =
           output_format_view_process env media_root uuid translation output_format edited_text st"
  using assms by (simp add: output_format_view_def)





text \<open>What a render request whose file generation returns does to the tables.\<close>

lemma output_format_view_process_success:
  assumes "fst (generate_output_file env edited_text output_format
             (path_join (path_join media_root ''outputs'') (uuid @ ''.'' @ output_format))
             (storage st)) = Inr generated"
  shows "output_file_rows
           (snd (output_format_view_process env media_root uuid translation output_format
                   edited_text st)) =
           output_file_rows st @
             [\<lparr>out_id = next_output_file_id st, out_translation = tr_id translation,
               out_file = path_join ''outputs'' (uuid @ ''.'' @ output_format),
               out_file_type = output_format\<rparr>]"
    and "translation_rows
           (snd (output_format_view_process env media_root uuid translation output_format
                   edited_text st)) =
           (if edited_text \<noteq> tr_text translation
            then map (\<lambda>t. if tr_id t = tr_id translation
                           then translation\<lparr>tr_text := edited_text\<rparr> else t)
                   (translation_rows st)
            else translation_rows st)"
    and "storage
           (snd (output_format_view_process env media_root uuid translation output_format
                   edited_text st)) =
           snd (generate_output_file env edited_text output_format
             (path_join (path_join media_root ''outputs'') (uuid @ ''.'' @ output_format))
             (storage st))"
  using assms
  by (cases "generate_output_file env edited_text output_format
             (path_join (path_join media_root ''outputs'') (uuid @ ''.'' @ output_format))
             (storage st)";
      simp add: output_format_view_process_def create_output_file_def save_translation_def
        add_message_def Let_def)+

lemma output_format_view_process_failure:
  assumes "fst (generate_output_file env edited_text output_format
             (path_join (path_join media_root ''outputs'') (uuid @ ''.'' @ output_format))
             (storage st)) = Inl e"
  shows "translation_rows
           (snd (output_format_view_process env media_root uuid translation output_format
                   edited_text st)) = translation_rows st"
    and "output_file_rows
           (snd (output_format_view_process env media_root uuid translation output_format
                   edited_text st)) = output_file_rows st"
  using assms
  by (cases "generate_output_file env edited_text output_format
             (path_join (path_join media_root ''outputs'') (uuid @ ''.'' @ output_format))
             (storage st)";
      simp add: output_format_view_process_def add_message_def Let_def)+



text \<open>
  Claim C2, as the code has it. The edited text is the cleaned text of the form, that
  is, the submitted text stripped. A POST with a valid form overwrites the text of the
  translation with the edited text whenever the file generation returns (a change
  exactly when the two texts differ) and leaves the translations as they are when the
  generation raises. Nothing bounds the number of such requests.
\<close>

theorem output_format_view_overwrites_text:
  assumes "find (\<lambda>t. tr_id t = translation_id) (translation_rows st) = Some translation"
    and "req_method request = ''POST''"
    and "OutputFormatForm_clean request = Some (output_format, edited_text)"
    and "st' = snd (output_format_view env media_root uuid request translation_id st)"
  shows "case fst (generate_output_file env edited_text output_format
                (path_join (path_join media_root ''outputs'') (uuid @ ''.'' @ output_format))
                (storage st)) of
           Inr generated \<Rightarrow>
             find (\<lambda>t. tr_id t = translation_id) (translation_rows st')
               = Some (translation\<lparr>tr_text := edited_text\<rparr>) \<and>
             (edited_text = tr_text translation \<longrightarrow> translation_rows st' = translation_rows st)
         | Inl e \<Rightarrow> translation_rows st' = translation_rows st"
proof -
  have run: "st' = snd (output_format_view_process env media_root uuid translation output_format
      edited_text st)"
    using output_format_view_reaches_try [OF assms(1-3)] assms(4) by simp
  have id: "tr_id translation = translation_id"
    using find_tr_id [OF assms(1)] .
  show ?thesis
  proof (cases "fst (generate_output_file env edited_text output_format
                (path_join (path_join media_root ''outputs'') (uuid @ ''.'' @ output_format))
                (storage st))")
    case (Inl e)
    then show ?thesis
      using output_format_view_process_failure(1) [OF Inl] by (simp add: run)
  next
    case (Inr generated)
    show ?thesis
    proof (cases "edited_text = tr_text translation")
      case True
      then have "translation\<lparr>tr_text := edited_text\<rparr> = translation"
        by simp
      then show ?thesis
        using Inr True assms(1) output_format_view_process_success(2) [OF Inr, of translation]
        by (simp add: run)
    next
      case False
      then show ?thesis
        using Inr output_format_view_process_success(2) [OF Inr, of translation] id
          find_replace_translation [OF assms(1), of "translation\<lparr>tr_text := edited_text\<rparr>"]
        by (simp add: run)
    qed
  qed
qed

lemma render_txt_first:
  "translation_rows
     (snd (output_format_view plain_env ''/media'' ''u1'' (render_post ''txt'' ''salut'') 1
             translated_state)) = [translated_row\<lparr>tr_text := ''salut''\<rparr>]"
  by code_simp

lemma render_txt_second:
  "translation_rows
     (snd (output_format_view plain_env ''/media'' ''u2'' (render_post ''txt'' ''coucou'') 1
        (snd (output_format_view plain_env ''/media'' ''u1'' (render_post ''txt'' ''salut'') 1
                translated_state)))) = [translated_row\<lparr>tr_text := ''coucou''\<rparr>]"
  by code_simp

theorem output_format_view_overwrites_text_witness:
  "OutputFormatForm_clean (render_post ''txt'' ('' salut '' @ [NL])) = Some (''txt'', ''salut'') \<and>
   find (\<lambda>t. tr_id t = 1)
     (translation_rows
        (snd (output_format_view plain_env ''/media'' ''u1''
                (render_post ''txt'' ('' salut '' @ [NL])) 1 translated_state)))
     = Some (translated_row\<lparr>tr_text := ''salut''\<rparr>)"
proof -
  have a1: "find (\<lambda>t. tr_id t = 1) (translation_rows translated_state) = Some translated_row"
    by (simp add: translated_state_def translated_row_def)
  have a2: "req_method (render_post ''txt'' ('' salut '' @ [NL])) = ''POST''"
    by (simp add: render_post_def)
  have a3: "OutputFormatForm_clean (render_post ''txt'' ('' salut '' @ [NL]))
      = Some (''txt'', ''salut'')"
    by code_simp
  have gen: "fst (generate_output_file plain_env ''salut'' ''txt''
      (path_join (path_join ''/media'' ''outputs'') (''u1'' @ ''.'' @ ''txt''))
      (storage translated_state)) = Inr ''/media/outputs/u1.txt''"
    by (simp add: generate_output_file_def create_text_file_def plain_env_def path_join_def)
  show ?thesis
    using output_format_view_overwrites_text [OF a1 a2 a3 refl, of plain_env "''/media''" "''u1''"]
      gen a3
    by simp
qed

text \<open>
  The claim as it is worded fails: two render requests with different edited texts
  change the text of the same translation twice.
\<close>

theorem translation_text_overwritten_twice_counterexample:
  "map tr_text (translation_rows translated_state) = [''bonjour''] \<and>
   map tr_text (translation_rows
     (snd (output_format_view plain_env ''/media'' ''u1'' (render_post ''txt'' ''salut'') 1
             translated_state))) = [''salut''] \<and>
   map tr_text (translation_rows
     (snd (output_format_view plain_env ''/media'' ''u2'' (render_post ''txt'' ''coucou'') 1
        (snd (output_format_view plain_env ''/media'' ''u1'' (render_post ''txt'' ''salut'') 1
                translated_state))))) = [''coucou'']"
proof -
  have "map tr_text (translation_rows translated_state) = [''bonjour'']"
    by (simp add: translated_state_def translated_row_def)
  then show ?thesis
    using render_txt_first render_txt_second by simp
qed

subsection \<open>Deletion\<close>

text \<open>
  What \<^verbatim>\<open>Document.delete\<close> does: the rows of the document and of everything that
  hangs on it are gone, its own stored file is gone, and every other stored file is
  left where it is.
\<close>

lemma Document_delete_rows:
  "\<forall>d \<in> set (document_rows (Document_delete media_root self st)). doc_id d \<noteq> doc_id self"
  "\<forall>r \<in> set (ocr_result_rows (Document_delete media_root self st)).
     ocr_document r \<noteq> doc_id self"
  by (auto simp: Document_delete_def model_delete_document_def Let_def)

lemma Document_delete_cascade:
  assumes "r \<in> set (ocr_result_rows st)" and "ocr_document r = doc_id self"
    and "t \<in> set (translation_rows st)" and "tr_ocr_result t = ocr_id r"
    and "f \<in> set (output_file_rows st)" and "out_translation f = tr_id t"
  shows "t \<notin> set (translation_rows (Document_delete media_root self st))"
    and "f \<notin> set (output_file_rows (Document_delete media_root self st))"
  using assms by (auto simp: Document_delete_def model_delete_document_def Let_def)

lemma Document_delete_own_file:
  assumes "doc_file self \<noteq> []"
  shows "files (storage (Document_delete media_root self st))
           (path_join media_root (doc_file self)) = None"
  using assms
  by (auto simp: Document_delete_def model_delete_document_def Let_def isfile_def remove_file_def)

lemma Document_delete_other_files:
  assumes "p \<noteq> path_join media_root (doc_file self)"
  shows "files (storage (Document_delete media_root self st)) p = files (storage st) p"
  using assms
  by (auto simp: Document_delete_def model_delete_document_def Let_def remove_file_def)

text \<open>Deleting an OutputFile through its own \<^verbatim>\<open>delete\<close> does remove its stored file.\<close>

lemma OutputFile_delete_own_file:
  assumes "out_file self \<noteq> []"
  shows "files (storage (OutputFile_delete media_root self st))
           (path_join media_root (out_file self)) = None"
  using assms
  by (auto simp: OutputFile_delete_def model_delete_output_file_def Let_def isfile_def
      remove_file_def)

text \<open>
  Claim C1 at a document with one OCR result, one translation and one output file.
  After the delete request all four rows are gone and the upload is removed from the
  file system, but the stored file of the output file is still there: the cascade
  deletes the OutputFile row without running \<^verbatim>\<open>OutputFile.delete\<close>.
\<close>

theorem delete_document_leaves_output_file:
  "fst (delete_document_view ''/media'' delete_post 1 rendered_state)
     = Redirect ''translator:home'' None \<and>
   document_rows (snd (delete_document_view ''/media'' delete_post 1 rendered_state)) = [] \<and>
   ocr_result_rows (snd (delete_document_view ''/media'' delete_post 1 rendered_state)) = [] \<and>
   translation_rows (snd (delete_document_view ''/media'' delete_post 1 rendered_state)) = [] \<and>
   output_file_rows (snd (delete_document_view ''/media'' delete_post 1 rendered_state)) = [] \<and>
   files (storage (snd (delete_document_view ''/media'' delete_post 1 rendered_state)))
     ''/media/uploads/u1.png'' = None \<and>
   files (storage (snd (delete_document_view ''/media'' delete_post 1 rendered_state)))
     ''/media/outputs/o1.txt'' = Some (TextFile ''bonjour'')"
  by code_simp

end
